theory Spec2Isabelle
  imports Complex_Main "HOL-Library.Word"
begin

section \<open>RAW image processor: parameter scaling, enhancement pipeline, orchestration\<close>

text \<open>
  A shallow embedding of \<^verbatim>\<open>raw_image_processor.py\<close>: the slider scaling of
  \<^verbatim>\<open>RawImageProcessorApp.do_process_image\<close> and the function
  \<^verbatim>\<open>process_raw_image\<close>. A Python float is represented by the real number it
  denotes, and arithmetic between Python floats is idealised as exact. The arithmetic
  of numpy on \<^verbatim>\<open>float32\<close> arrays is modelled with its rounding: every operation
  yields the exact result rounded to the nearest binary32 value. Conversions between
  numbers (\<^verbatim>\<open>int(...)\<close>, \<^verbatim>\<open>astype(np.uint8)\<close>) are modelled with the rounding
  direction the Python operation has.
\<close>

subsection \<open>Scaling of the slider values (do\_process\_image, lines 285-291)\<close>

text \<open>
  The six Tk variables read by \<^verbatim>\<open>do_process_image\<close>. A \<^verbatim>\<open>ttk.Scale\<close> stores a
  floating-point position in its variable, so each slider value is a real number.
\<close>

record ui_sliders =
  ui_sharpening_strength :: real
  ui_blur_sigma :: real
  ui_jpeg_quality :: real
  ui_noise_reduction :: real
  ui_saturation :: real
  ui_contrast :: real

text \<open>The keyword arguments of \<^verbatim>\<open>process_raw_image\<close>.\<close>

record filter_params =
  sharpening_strength :: real
  blur_sigma :: int
  jpeg_quality :: int
  noise_reduction :: real
  saturation :: real
  contrast :: real

text \<open>
  Python's \<^verbatim>\<open>int(x)\<close> on a float discards the fractional part (rounds toward zero).
  Reading a fractional value through \<^verbatim>\<open>tk.IntVar.get()\<close> discards it the same way,
  so \<^verbatim>\<open>int(self.blur_sigma.get())\<close> is this function of the slider value.
\<close>

definition py_int :: "real \<Rightarrow> int" where
  "py_int x = (if 0 \<le> x then \<lfloor>x\<rfloor> else \<lceil>x\<rceil>)"

definition scale_parameters :: "ui_sliders \<Rightarrow> filter_params" where
  "scale_parameters ui =
     \<lparr> sharpening_strength = ui_sharpening_strength ui / 100 * 3.0,
       blur_sigma = py_int (ui_blur_sigma ui),
       jpeg_quality = py_int (ui_jpeg_quality ui),
       noise_reduction = ui_noise_reduction ui / 100,
       saturation = ui_saturation ui / 50,
       contrast = ui_contrast ui / 50 \<rparr>"

text \<open>The slider ranges given to \<^verbatim>\<open>ttk.Scale\<close> (lines 151-181).\<close>

definition slider_ranges :: "ui_sliders \<Rightarrow> bool" where
  "slider_ranges ui =
     (0 \<le> ui_sharpening_strength ui \<and> ui_sharpening_strength ui \<le> 100 \<and>
      1 \<le> ui_blur_sigma ui \<and> ui_blur_sigma ui \<le> 100 \<and>
      50 \<le> ui_jpeg_quality ui \<and> ui_jpeg_quality ui \<le> 100 \<and>
      0 \<le> ui_noise_reduction ui \<and> ui_noise_reduction ui \<le> 100 \<and>
      0 \<le> ui_saturation ui \<and> ui_saturation ui \<le> 100 \<and>
      0 \<le> ui_contrast ui \<and> ui_contrast ui \<le> 100)"

text \<open>The native ranges documented for the filter parameters.\<close>

definition native_ranges :: "filter_params \<Rightarrow> bool" where
  "native_ranges p =
     (0 \<le> sharpening_strength p \<and> sharpening_strength p \<le> 3 \<and>
      1 \<le> blur_sigma p \<and> blur_sigma p \<le> 100 \<and>
      50 \<le> jpeg_quality p \<and> jpeg_quality p \<le> 100 \<and>
      0 \<le> noise_reduction p \<and> noise_reduction p \<le> 1 \<and>
      0 \<le> saturation p \<and> saturation p \<le> 2 \<and>
      0 \<le> contrast p \<and> contrast p \<le> 2)"

subsection \<open>Rasters and exceptions\<close>

text \<open>
  A raster is a numpy array of unsigned bytes as OpenCV uses it: two-dimensional
  (height, width) or three-dimensional (height, width, channels), stored row by row with
  the channels of a pixel next to each other.
\<close>

type_synonym uint8 = "8 word"

datatype shape = HW nat nat | HWC nat nat nat

record raster =
  shape :: shape
  samples :: "uint8 list"

text \<open>The channel a flat index belongs to (0 in a two-dimensional array).\<close>

definition channel_index :: "shape \<Rightarrow> nat \<Rightarrow> nat" where
  "channel_index s i = (case s of HW h w \<Rightarrow> 0 | HWC h w c \<Rightarrow> i mod c)"

definition three_channels :: "raster \<Rightarrow> bool" where
  "three_channels r = (case shape r of HW h w \<Rightarrow> False | HWC h w c \<Rightarrow> c = 3)"

text \<open>An exception is represented by its message \<^verbatim>\<open>str(e)\<close>.\<close>

type_synonym exn = string

type_synonym path = string

subsection \<open>The collaborators\<close>

text \<open>
  The OpenCV functions whose result is a numerical algorithm of the library are
  parameters of the model: each either raises or returns a raster.
  \<^verbatim>\<open>GaussianBlur\<close> takes the source, the kernel size and \<^verbatim>\<open>sigmaX\<close>
  (\<^verbatim>\<open>sigmaY\<close> is never passed, so the library uses \<^verbatim>\<open>sigmaX\<close> on both axes);
  \<^verbatim>\<open>fastNlMeansDenoisingColored\<close> takes the source, \<^verbatim>\<open>h\<close>, \<^verbatim>\<open>hColor\<close>, the
  template window and the search window.
\<close>

datatype color_code = COLOR_RGB2BGR | COLOR_BGR2HSV | COLOR_HSV2BGR | COLOR_GRAY2BGR

record cv2 =
  GaussianBlur :: "raster \<Rightarrow> nat \<times> nat \<Rightarrow> real \<Rightarrow> exn + raster"
  fastNlMeansDenoisingColored :: "raster \<Rightarrow> real \<Rightarrow> real \<Rightarrow> nat \<Rightarrow> nat \<Rightarrow> exn + raster"
  cvtColor :: "raster \<Rightarrow> color_code \<Rightarrow> exn + raster"

text \<open>
  The operating system, the RAW decoder and the image writer act on a world \<open>'w\<close>
  (the file system). \<^verbatim>\<open>os.makedirs\<close> returns the exception it raised, if any;
  \<^verbatim>\<open>cv2.imwrite\<close> raises or returns its boolean status. Both return the world they
  leave behind. \<^verbatim>\<open>rawpy_postprocess\<close> stands for
  \<^verbatim>\<open>rawpy.imread(input_path)\<close> followed by \<^verbatim>\<open>raw.postprocess()\<close>.
\<close>

record 'w system =
  os_path_exists :: "'w \<Rightarrow> path \<Rightarrow> bool"
  os_path_dirname :: "path \<Rightarrow> path"
  os_makedirs :: "'w \<Rightarrow> path \<Rightarrow> exn option \<times> 'w"
  rawpy_postprocess :: "'w \<Rightarrow> path \<Rightarrow> exn + raster"
  cv2_imwrite :: "'w \<Rightarrow> path \<Rightarrow> raster \<Rightarrow> int \<Rightarrow> (exn + bool) \<times> 'w"

subsection \<open>Per-sample arithmetic\<close>

text \<open>
  \<^verbatim>\<open>astype(np.float32)\<close> of a byte is exact; \<^verbatim>\<open>astype(np.uint8)\<close> of a float
  discards the fractional part (a C cast) and keeps the low eight bits;
  \<^verbatim>\<open>np.clip(a, a_min, a_max)\<close> is \<^verbatim>\<open>minimum(maximum(a, a_min), a_max)\<close>.
\<close>

definition astype_float32 :: "uint8 \<Rightarrow> real" where
  "astype_float32 s = real (unat s)"

definition astype_uint8 :: "real \<Rightarrow> uint8" where
  "astype_uint8 x = word_of_int (py_int x)"

definition np_clip :: "real \<Rightarrow> real \<Rightarrow> real \<Rightarrow> real" where
  "np_clip a a_min a_max = min (max a a_min) a_max"

text \<open>
  Arithmetic on a \<^verbatim>\<open>float32\<close> array is IEEE binary32 arithmetic: the exact result
  is rounded to the nearest number with a significand of 24 bits, ties to the even
  significand. \<open>f32_exponent\<close> is the binary exponent of a number, found by trying
  127 down to -126 (below \<open>2 powi (- 126)\<close> the numbers are subnormal and keep the
  exponent -126), and \<open>f32\<close> rounds to a multiple of the spacing at that exponent.
  Infinities and NaN are not modelled: \<open>f32\<close> is the rounding of binary32 for
  numbers of magnitude below \<open>2 ^ 128\<close>. A Python float that meets a
  \<^verbatim>\<open>float32\<close> array is converted to binary32 first.
\<close>

definition rint :: "real \<Rightarrow> int" where
  "rint x =
     (let f = \<lfloor>x\<rfloor>; d = x - of_int f
      in if d < 1 / 2 then f else if 1 / 2 < d then f + 1 else if even f then f else f + 1)"

fun top_exponent :: "nat \<Rightarrow> real \<Rightarrow> int" where
  "top_exponent 0 a = - 126"
| "top_exponent (Suc n) a =
     (if 2 powi (int n - 126) \<le> a then int n - 126 else top_exponent n a)"

definition f32_exponent :: "real \<Rightarrow> int" where
  "f32_exponent x = top_exponent 254 \<bar>x\<bar>"

definition f32 :: "real \<Rightarrow> real" where
  "f32 x = (let q = 2 powi (f32_exponent x - 23) in of_int (rint (x / q)) * q)"

text \<open>
  Modelled from the spec: \<^verbatim>\<open>cv2.addWeighted\<close> is OpenCV code, not part of the
  repository. The spec (4.2, step 1) gives its result as the per-pixel affine
  combination of the two rasters clamped to the 8-bit range. OpenCV's
  \<^verbatim>\<open>saturate_cast<uchar>\<close> rounds to the nearest integer (ties to even,
  \<^verbatim>\<open>cvRound\<close>) and then clamps to 0..255; rasters of different shapes are refused.
\<close>

definition cvRound :: "real \<Rightarrow> int" where
  "cvRound x =
     (let f = \<lfloor>x\<rfloor>; d = x - of_int f
      in if d < 1 / 2 then f else if 1 / 2 < d then f + 1 else if even f then f else f + 1)"

definition saturate_cast_uchar :: "real \<Rightarrow> uint8" where
  "saturate_cast_uchar x = word_of_int (max 0 (min 255 (cvRound x)))"

definition addWeighted :: "raster \<Rightarrow> real \<Rightarrow> raster \<Rightarrow> real \<Rightarrow> real \<Rightarrow> exn + raster" where
  "addWeighted src1 alpha src2 beta gamma =
     (if shape src1 = shape src2 then
        Inr \<lparr> shape = shape src1,
              samples = map2 (\<lambda>x y. saturate_cast_uchar
                                 (astype_float32 x * alpha + astype_float32 y * beta + gamma))
                          (samples src1) (samples src2) \<rparr>
      else Inl ''The operation is neither array op array (where arrays have the same size)'')"

subsection \<open>The enhancement pipeline (process\_raw\_image, lines 48-90)\<close>

text \<open>Steps 1 and 2: Gaussian blur with kernel size (0, 0), then the weighted sum.\<close>

definition unsharp_mask :: "cv2 \<Rightarrow> raster \<Rightarrow> filter_params \<Rightarrow> exn + raster" where
  "unsharp_mask cv image_bgr p =
     (case GaussianBlur cv image_bgr (0, 0) (real_of_int (blur_sigma p)) of
        Inl e \<Rightarrow> Inl e
      | Inr blurred \<Rightarrow>
          addWeighted image_bgr (1.0 + sharpening_strength p) blurred (- sharpening_strength p) 0)"

text \<open>Step 3: non-local-means denoising, only when \<^verbatim>\<open>noise_reduction > 0\<close>.\<close>

definition reduce_noise :: "cv2 \<Rightarrow> raster \<Rightarrow> filter_params \<Rightarrow> exn + raster" where
  "reduce_noise cv sharpened p =
     (if 0 < noise_reduction p then
        (let h = noise_reduction p * 10
         in fastNlMeansDenoisingColored cv sharpened h h 7 21)
      else Inr sharpened)"

text \<open>
  \<^verbatim>\<open>hsv[:,:,1] = f(hsv[:,:,1])\<close> on the flat data of an array with \<open>c\<close> channels.
\<close>

definition map_channel1 :: "nat \<Rightarrow> (real \<Rightarrow> real) \<Rightarrow> real list \<Rightarrow> real list" where
  "map_channel1 c f xs = map (\<lambda>(i, v). if i mod c = 1 then f v else v) (enumerate 0 xs)"

text \<open>
  Lines 72-73. Indexing channel 1 raises \<^verbatim>\<open>IndexError\<close> on a two-dimensional
  array and on an array with a single channel. The product of the \<^verbatim>\<open>float32\<close>
  channel and the Python float \<^verbatim>\<open>saturation\<close> is a binary32 product.
\<close>

definition adjust_saturation :: "shape \<Rightarrow> real list \<Rightarrow> real \<Rightarrow> exn + real list" where
  "adjust_saturation shp hsv sat =
     (case shp of
        HW h w \<Rightarrow> Inl ''too many indices for array''
      | HWC h w c \<Rightarrow>
          if c < 2 then Inl ''index 1 is out of bounds for axis 2''
          else Inr (map_channel1 c (\<lambda>v. np_clip v 0 255)
                      (map_channel1 c (\<lambda>v. f32 (v * f32 sat)) hsv)))"

text \<open>Lines 68-76: to HSV as floats, the saturation adjustment, back to bytes and BGR.\<close>

definition saturation_stage :: "cv2 \<Rightarrow> raster \<Rightarrow> filter_params \<Rightarrow> exn + raster" where
  "saturation_stage cv sharpened p =
     (case cvtColor cv sharpened COLOR_BGR2HSV of
        Inl e \<Rightarrow> Inl e
      | Inr hsv8 \<Rightarrow>
          (case (if saturation p \<noteq> 1.0
                 then adjust_saturation (shape hsv8) (map astype_float32 (samples hsv8)) (saturation p)
                 else Inr (map astype_float32 (samples hsv8))) of
             Inl e \<Rightarrow> Inl e
           | Inr hsv \<Rightarrow>
               cvtColor cv \<lparr> shape = shape hsv8, samples = map astype_uint8 hsv \<rparr> COLOR_HSV2BGR))"

text \<open>
  Lines 81-83: the subtraction, the product and the sum are binary32 operations on the
  \<^verbatim>\<open>float32\<close> array, each rounded on its own.
\<close>

definition adjust_contrast :: "raster \<Rightarrow> real \<Rightarrow> raster" where
  "adjust_contrast enhanced c =
     enhanced \<lparr> samples :=
       map (\<lambda>s. astype_uint8
                  (np_clip (f32 (f32 (f32 (astype_float32 s - 127.5) * f32 c) + 127.5)) 0 255))
         (samples enhanced) \<rparr>"

text \<open>Step 4 (lines 66-85).\<close>

definition color_enhance :: "cv2 \<Rightarrow> raster \<Rightarrow> filter_params \<Rightarrow> exn + raster" where
  "color_enhance cv sharpened p =
     (if saturation p \<noteq> 1.0 \<or> contrast p \<noteq> 1.0 then
        (case saturation_stage cv sharpened p of
           Inl e \<Rightarrow> Inl e
         | Inr enhanced \<Rightarrow>
             if contrast p \<noteq> 1.0 then Inr (adjust_contrast enhanced (contrast p))
             else Inr enhanced)
      else Inr sharpened)"

text \<open>Steps 3 and 4 together, and steps 1 to 4.\<close>

definition after_sharpen :: "cv2 \<Rightarrow> raster \<Rightarrow> filter_params \<Rightarrow> exn + raster" where
  "after_sharpen cv sharpened p =
     (case reduce_noise cv sharpened p of
        Inl e \<Rightarrow> Inl e
      | Inr denoised \<Rightarrow> color_enhance cv denoised p)"

definition enhance_stages :: "cv2 \<Rightarrow> raster \<Rightarrow> filter_params \<Rightarrow> exn + raster" where
  "enhance_stages cv image_bgr p =
     (case unsharp_mask cv image_bgr p of
        Inl e \<Rightarrow> Inl e
      | Inr sharpened \<Rightarrow> after_sharpen cv sharpened p)"

text \<open>
  Lines 87-90: \<^verbatim>\<open>len(enhanced.shape) == 2 or enhanced.shape[2] == 1\<close>, the warning
  and the conversion. The second component is what was printed.
\<close>

definition is_grayscale :: "raster \<Rightarrow> bool" where
  "is_grayscale r = (case shape r of HW h w \<Rightarrow> True | HWC h w c \<Rightarrow> c = 1)"

definition ensure_color :: "cv2 \<Rightarrow> raster \<Rightarrow> (exn + raster) \<times> string list" where
  "ensure_color cv enhanced =
     (if is_grayscale enhanced then
        (cvtColor cv enhanced COLOR_GRAY2BGR,
         [''Warning: Image appears to be grayscale, converting to color''])
      else (Inr enhanced, []))"

definition enhancement_pipeline ::
  "cv2 \<Rightarrow> raster \<Rightarrow> filter_params \<Rightarrow> (exn + raster) \<times> string list" where
  "enhancement_pipeline cv image_bgr p =
     (case enhance_stages cv image_bgr p of
        Inl e \<Rightarrow> (Inl e, [])
      | Inr enhanced \<Rightarrow> ensure_color cv enhanced)"

text \<open>
  What \<^verbatim>\<open>cv2.cvtColor(enhanced, cv2.COLOR_GRAY2BGR)\<close> produces when it succeeds:
  every gray sample three times, in a raster with three channels.
\<close>

definition gray_to_bgr :: "raster \<Rightarrow> raster" where
  "gray_to_bgr g =
     \<lparr> shape = (case shape g of HW h w \<Rightarrow> HWC h w 3 | HWC h w c \<Rightarrow> HWC h w 3),
       samples = concat (map (\<lambda>s. [s, s, s]) (samples g)) \<rparr>"

subsection \<open>The orchestration (process\_raw\_image, lines 28-100)\<close>

text \<open>What a call leaves behind: the value returned, the world, and the lines printed.\<close>

record 'w run =
  returned :: "path option"
  world_after :: "'w"
  printed :: "string list"

text \<open>
  The body of the \<^verbatim>\<open>try\<close> block: it raises (\<open>Inl\<close>) or returns (\<open>Inr\<close>). The value of
  \<^verbatim>\<open>cv2.imwrite\<close> is not looked at (line 93).
\<close>

definition try_block ::
  "'w system \<Rightarrow> cv2 \<Rightarrow> 'w \<Rightarrow> path \<Rightarrow> path \<Rightarrow> filter_params
     \<Rightarrow> (exn + path option) \<times> 'w \<times> string list" where
  "try_block sys cv w input_path output_path p =
     (if \<not> os_path_exists sys w input_path then
        (Inr None, w,
         [''Error: Input file '' @ [CHR 0x27] @ input_path @ [CHR 0x27] @ '' does not exist.''])
      else
        (let output_dir = os_path_dirname sys output_path;
             (raised, w1) =
               (if output_dir \<noteq> [] \<and> \<not> os_path_exists sys w output_dir
                then os_makedirs sys w output_dir else (None, w))
         in case raised of
              Some e \<Rightarrow> (Inl e, w1, [])
            | None \<Rightarrow>
                (let out = [''Processing RAW image: '' @ input_path]
                 in case rawpy_postprocess sys w1 input_path of
                      Inl e \<Rightarrow> (Inl e, w1, out)
                    | Inr rgb_image \<Rightarrow>
                        (case cvtColor cv rgb_image COLOR_RGB2BGR of
                           Inl e \<Rightarrow> (Inl e, w1, out)
                         | Inr image_bgr \<Rightarrow>
                             (case enhancement_pipeline cv image_bgr p of
                                (Inl e, warned) \<Rightarrow> (Inl e, w1, out @ warned)
                              | (Inr enhanced, warned) \<Rightarrow>
                                  (case cv2_imwrite sys w1 output_path enhanced (jpeg_quality p) of
                                     (Inl e, w2) \<Rightarrow> (Inl e, w2, out @ warned)
                                   | (Inr status, w2) \<Rightarrow>
                                       (Inr (Some output_path), w2,
                                        out @ warned @
                                        [''Processed image saved to: '' @ output_path])))))))"

text \<open>The \<^verbatim>\<open>except Exception\<close> clause turns a raised exception into \<^verbatim>\<open>None\<close>.\<close>

definition process_raw_image ::
  "'w system \<Rightarrow> cv2 \<Rightarrow> 'w \<Rightarrow> path \<Rightarrow> path \<Rightarrow> filter_params \<Rightarrow> 'w run" where
  "process_raw_image sys cv w input_path output_path p =
     (case try_block sys cv w input_path output_path p of
        (Inl e, w', out) \<Rightarrow>
          \<lparr> returned = None, world_after = w',
            printed = out @ [''Error processing image: '' @ e] \<rparr>
      | (Inr r, w', out) \<Rightarrow> \<lparr> returned = r, world_after = w', printed = out \<rparr>)"

subsection \<open>What the library documents about shapes\<close>

text \<open>
  The denoiser returns a raster of the shape of its source, the conversion from HSV
  returns three channels, and the conversion of a grayscale raster to BGR repeats
  the gray sample.
\<close>

definition shape_contract :: "cv2 \<Rightarrow> bool" where
  "shape_contract cv =
     ((\<forall>src h hc t s out.
         fastNlMeansDenoisingColored cv src h hc t s = Inr out \<longrightarrow> shape out = shape src) \<and>
      (\<forall>src out. cvtColor cv src COLOR_HSV2BGR = Inr out \<longrightarrow> three_channels out) \<and>
      (\<forall>src out. is_grayscale src \<longrightarrow>
         cvtColor cv src COLOR_GRAY2BGR = Inr out \<longrightarrow> out = gray_to_bgr src))"

text \<open>The rasters a decoder can hand over: grayscale, or three channels.\<close>

definition gray_or_bgr :: "raster \<Rightarrow> bool" where
  "gray_or_bgr r = (case shape r of HW h w \<Rightarrow> True | HWC h w c \<Rightarrow> c = 1 \<or> c = 3)"

text \<open>Two rasters of one shape whose samples differ by at most \<open>tol\<close>.\<close>

definition within_tolerance :: "int \<Rightarrow> raster \<Rightarrow> raster \<Rightarrow> bool" where
  "within_tolerance tol a b =
     (shape a = shape b \<and>
      list_all2 (\<lambda>x y. \<bar>int (unat x) - int (unat y)\<bar> \<le> tol) (samples a) (samples b))"

subsection \<open>A simulated set of collaborators\<close>

text \<open>
  Simple stand-ins for the library and the file system, used to run the model on
  concrete inputs. The blur flattens the raster to mid-gray, the denoiser and the HSV
  conversions keep a three-channel raster as it is, the decoder returns a fixed raster
  of two pixels for an existing \<^verbatim>\<open>.dng\<close> file, and the writer reports failure
  (it returns \<^verbatim>\<open>False\<close>) when the output path is an existing directory.
\<close>

record disk =
  dirs :: "path set"
  files :: "path set"

definition posix_dirname :: "path \<Rightarrow> path" where
  "posix_dirname p =
     (let head = rev (dropWhile (\<lambda>c. c \<noteq> CHR ''/'') (rev p))
      in if head \<noteq> [] \<and> \<not> list_all (\<lambda>c. c = CHR ''/'') head
         then rev (dropWhile (\<lambda>c. c = CHR ''/'') (rev head)) else head)"

definition sim_exists :: "disk \<Rightarrow> path \<Rightarrow> bool" where
  "sim_exists w p = (p \<in> dirs w \<or> p \<in> files w)"

definition sim_makedirs :: "disk \<Rightarrow> path \<Rightarrow> exn option \<times> disk" where
  "sim_makedirs w d =
     (if sim_exists w d then (Some ''File exists'', w)
      else (None, w \<lparr> dirs := insert d (dirs w) \<rparr>))"

definition sim_rgb :: raster where
  "sim_rgb = \<lparr> shape = HWC 1 2 3, samples = [200, 100, 0, 10, 20, 30] \<rparr>"

definition sim_postprocess :: "disk \<Rightarrow> path \<Rightarrow> exn + raster" where
  "sim_postprocess w p =
     (if p \<in> files w \<and> take 4 (rev p) = ''gnd.'' then Inr sim_rgb
      else Inl ''Unsupported file format or not RAW file'')"

definition sim_imwrite :: "disk \<Rightarrow> path \<Rightarrow> raster \<Rightarrow> int \<Rightarrow> (exn + bool) \<times> disk" where
  "sim_imwrite w p img q =
     (if take 4 (rev p) \<noteq> ''gpj.''
      then (Inl ''could not find a writer for the specified extension'', w)
      else if p \<in> dirs w then (Inr False, w)
      else (Inr True, w \<lparr> files := insert p (files w) \<rparr>))"

definition sim_system :: "disk system" where
  "sim_system =
     \<lparr> os_path_exists = sim_exists, os_path_dirname = posix_dirname,
       os_makedirs = sim_makedirs, rawpy_postprocess = sim_postprocess,
       cv2_imwrite = sim_imwrite \<rparr>"

definition sim_blur :: "raster \<Rightarrow> nat \<times> nat \<Rightarrow> real \<Rightarrow> exn + raster" where
  "sim_blur src ksize sigma =
     (if 0 < sigma then Inr (src \<lparr> samples := map (\<lambda>s. 128) (samples src) \<rparr>)
      else Inl ''ksize.width > 0 && ksize.width % 2 == 1'')"

definition sim_denoise :: "raster \<Rightarrow> real \<Rightarrow> real \<Rightarrow> nat \<Rightarrow> nat \<Rightarrow> exn + raster" where
  "sim_denoise src h hc t s =
     (if three_channels src then Inr src else Inl ''Type of input image should be CV_8UC3'')"

fun swap_rb :: "uint8 list \<Rightarrow> uint8 list" where
  "swap_rb (r # g # b # rest) = b # g # r # swap_rb rest"
| "swap_rb rest = rest"

definition sim_cvtColor :: "raster \<Rightarrow> color_code \<Rightarrow> exn + raster" where
  "sim_cvtColor src code =
     (case code of
        COLOR_GRAY2BGR \<Rightarrow>
          if is_grayscale src then Inr (gray_to_bgr src) else Inl ''Invalid number of channels''
      | COLOR_RGB2BGR \<Rightarrow>
          if three_channels src then Inr (src \<lparr> samples := swap_rb (samples src) \<rparr>)
          else Inl ''Invalid number of channels''
      | COLOR_BGR2HSV \<Rightarrow>
          if three_channels src then Inr src else Inl ''Invalid number of channels''
      | COLOR_HSV2BGR \<Rightarrow>
          if three_channels src then Inr src else Inl ''Invalid number of channels'')"

definition sim_cv2 :: cv2 where
  "sim_cv2 =
     \<lparr> GaussianBlur = sim_blur, fastNlMeansDenoisingColored = sim_denoise,
       cvtColor = sim_cvtColor \<rparr>"

section \<open>Properties\<close>

subsection \<open>The slider scaling\<close>

text \<open>
  Claim C1, as amended. For every six slider values the scaling yields
  sharpening strength = slider / 100 * 3, noise reduction = slider / 100,
  saturation = slider / 50 and contrast = slider / 50, while the blur sigma and the JPEG
  quality are the slider values with the fractional part discarded (truncated toward
  zero, not rounded): the result is never larger in magnitude than the slider value
  and less than one away from it.
\<close>

theorem scale_parameters_truncates:
  "sharpening_strength (scale_parameters ui) = ui_sharpening_strength ui / 100 * 3 \<and>
   blur_sigma (scale_parameters ui) =
     (if ui_blur_sigma ui < 0 then - \<lfloor>- ui_blur_sigma ui\<rfloor> else \<lfloor>ui_blur_sigma ui\<rfloor>) \<and>
   jpeg_quality (scale_parameters ui) =
     (if ui_jpeg_quality ui < 0 then - \<lfloor>- ui_jpeg_quality ui\<rfloor> else \<lfloor>ui_jpeg_quality ui\<rfloor>) \<and>
   noise_reduction (scale_parameters ui) = ui_noise_reduction ui / 100 \<and>
   saturation (scale_parameters ui) = ui_saturation ui / 50 \<and>
   contrast (scale_parameters ui) = ui_contrast ui / 50 \<and>
   \<bar>real_of_int (blur_sigma (scale_parameters ui))\<bar> \<le> \<bar>ui_blur_sigma ui\<bar> \<and>
   \<bar>ui_blur_sigma ui - real_of_int (blur_sigma (scale_parameters ui))\<bar> < 1 \<and>
   \<bar>real_of_int (jpeg_quality (scale_parameters ui))\<bar> \<le> \<bar>ui_jpeg_quality ui\<bar> \<and>
   \<bar>ui_jpeg_quality ui - real_of_int (jpeg_quality (scale_parameters ui))\<bar> < 1"
proof -
  have trunc: "py_int x = (if x < 0 then - \<lfloor>- x\<rfloor> else \<lfloor>x\<rfloor>)" for x
    by (simp add: py_int_def ceiling_def)
  have mag: "\<bar>real_of_int (py_int x)\<bar> \<le> \<bar>x\<bar>" for x
    unfolding py_int_def by (simp; linarith)
  have near: "\<bar>x - real_of_int (py_int x)\<bar> < 1" for x
    unfolding py_int_def by (simp; linarith)
  have b: "blur_sigma (scale_parameters ui) = py_int (ui_blur_sigma ui)"
    and q: "jpeg_quality (scale_parameters ui) = py_int (ui_jpeg_quality ui)"
    by (simp_all add: scale_parameters_def)
  have lin: "sharpening_strength (scale_parameters ui) = ui_sharpening_strength ui / 100 * 3"
    "noise_reduction (scale_parameters ui) = ui_noise_reduction ui / 100"
    "saturation (scale_parameters ui) = ui_saturation ui / 50"
    "contrast (scale_parameters ui) = ui_contrast ui / 50"
    by (simp_all add: scale_parameters_def)
  show ?thesis
    unfolding b q
    by (intro conjI lin trunc mag near)
qed

text \<open>
  Claim C1 as stated fails: a blur slider at 2.7 gives sigma 2 where rounding gives 3,
  and a quality slider at 95.5 gives 95 where rounding gives 96.
\<close>

theorem scale_parameters_round_counterexample:
  "blur_sigma (scale_parameters
      \<lparr> ui_sharpening_strength = 50, ui_blur_sigma = 2.7, ui_jpeg_quality = 95.5,
        ui_noise_reduction = 30, ui_saturation = 55, ui_contrast = 55 \<rparr>) = 2 \<and>
   round (2.7 :: real) = 3 \<and>
   jpeg_quality (scale_parameters
      \<lparr> ui_sharpening_strength = 50, ui_blur_sigma = 2.7, ui_jpeg_quality = 95.5,
        ui_noise_reduction = 30, ui_saturation = 55, ui_contrast = 55 \<rparr>) = 95 \<and>
   round (95.5 :: real) = 96"
  by (simp add: scale_parameters_def py_int_def round_def)

text \<open>
  Claim C7, as amended. When every slider value lies in the range of its own slider
  (sharpening, noise, saturation and contrast in 0..100, blur in 1..100, quality in
  50..100), the scaled parameters lie in the documented native ranges.
\<close>

theorem scale_parameters_in_native_ranges:
  assumes "slider_ranges ui"
  shows "native_ranges (scale_parameters ui)"
  using assms
  by (simp add: slider_ranges_def native_ranges_def scale_parameters_def py_int_def
      le_floor_iff floor_le_iff)

text \<open>The default slider positions (50, 3, 95, 30, 55, 55) and what they scale to.\<close>

theorem scale_parameters_in_native_ranges_witness:
  "slider_ranges
     \<lparr> ui_sharpening_strength = 50, ui_blur_sigma = 3, ui_jpeg_quality = 95,
       ui_noise_reduction = 30, ui_saturation = 55, ui_contrast = 55 \<rparr> \<and>
   native_ranges (scale_parameters
     \<lparr> ui_sharpening_strength = 50, ui_blur_sigma = 3, ui_jpeg_quality = 95,
       ui_noise_reduction = 30, ui_saturation = 55, ui_contrast = 55 \<rparr>) \<and>
   scale_parameters
     \<lparr> ui_sharpening_strength = 50, ui_blur_sigma = 3, ui_jpeg_quality = 95,
       ui_noise_reduction = 30, ui_saturation = 55, ui_contrast = 55 \<rparr> =
     \<lparr> sharpening_strength = 1.5, blur_sigma = 3, jpeg_quality = 95,
       noise_reduction = 0.3, saturation = 1.1, contrast = 1.1 \<rparr>"
proof -
  have h: "slider_ranges
     \<lparr> ui_sharpening_strength = 50, ui_blur_sigma = 3, ui_jpeg_quality = 95,
       ui_noise_reduction = 30, ui_saturation = 55, ui_contrast = 55 \<rparr>"
    by (simp add: slider_ranges_def)
  show ?thesis
    using h scale_parameters_in_native_ranges [OF h]
    by (simp add: scale_parameters_def py_int_def)
qed

text \<open>
  Claim C7 as stated fails: with every slider at 0, a value in 0..100, the blur sigma
  is 0 and the JPEG quality is 0, outside 1..100 and 50..100.
\<close>

theorem unit_sliders_counterexample:
  "\<not> native_ranges (scale_parameters
      \<lparr> ui_sharpening_strength = 0, ui_blur_sigma = 0, ui_jpeg_quality = 0,
        ui_noise_reduction = 0, ui_saturation = 0, ui_contrast = 0 \<rparr>)"
  by (simp add: native_ranges_def scale_parameters_def py_int_def)

subsection \<open>Bytes, rounding and clamping\<close>

lemma unat_byte_of_int:
  assumes "0 \<le> k" "k \<le> 255"
  shows "int (unat (word_of_int k :: uint8)) = k"
proof -
  have "uint (word_of_int k :: uint8) = k mod 256"
    by (simp add: uint_word_of_int)
  also have "\<dots> = k" using assms by simp
  finally show ?thesis by simp
qed

lemma uint_byte_le: "uint (s :: uint8) \<le> 255"
  using uint_lt2p [of s] by simp

lemma cvRound_of_int: "cvRound (of_int k) = k"
  by (simp add: cvRound_def)

lemma float32_as_int: "astype_float32 s = of_int (uint s)"
  by (simp add: astype_float32_def)

lemma saturate_cast_uchar_byte: "saturate_cast_uchar (astype_float32 s) = s"
proof -
  have "max 0 (min 255 (uint s)) = uint s"
    using uint_byte_le [of s] by simp
  then show ?thesis
    by (simp only: saturate_cast_uchar_def float32_as_int cvRound_of_int word_of_int_uint)
qed

lemma int_unat_saturate_cast:
  "int (unat (saturate_cast_uchar x)) = max 0 (min 255 (cvRound x))"
  unfolding saturate_cast_uchar_def by (rule unat_byte_of_int) simp_all

lemma py_int_of_int: "0 \<le> k \<Longrightarrow> py_int (of_int k) = k"
  by (simp add: py_int_def)

lemma astype_uint8_float32: "astype_uint8 (astype_float32 s) = s"
  by (simp only: astype_uint8_def float32_as_int py_int_of_int [OF uint_ge_0] word_of_int_uint)

lemma np_clip_bounds: "0 \<le> np_clip v 0 255" "np_clip v 0 255 \<le> 255"
  by (simp_all add: np_clip_def)

lemma int_unat_astype_clip:
  "int (unat (astype_uint8 (np_clip v 0 255))) = \<lfloor>min 255 (max 0 v)\<rfloor>"
proof -
  have eq: "np_clip v 0 255 = min 255 (max 0 v)"
    by (simp add: np_clip_def min.commute max.commute)
  have "py_int (np_clip v 0 255) = \<lfloor>np_clip v 0 255\<rfloor>"
    using np_clip_bounds(1) [of v] by (simp add: py_int_def)
  moreover have "0 \<le> \<lfloor>np_clip v 0 255\<rfloor>" "\<lfloor>np_clip v 0 255\<rfloor> \<le> 255"
    using np_clip_bounds [of v] by (simp_all add: le_floor_iff floor_le_iff)
  ultimately show ?thesis
    unfolding astype_uint8_def using unat_byte_of_int eq by simp
qed

lemma length_map_channel1: "length (map_channel1 c f xs) = length xs"
  by (simp add: map_channel1_def)

lemma nth_map_channel1:
  "i < length xs \<Longrightarrow> map_channel1 c f xs ! i = (if i mod c = 1 then f (xs ! i) else xs ! i)"
  by (simp add: map_channel1_def nth_enumerate_eq)

subsection \<open>The weighted sum\<close>

lemma addWeighted_unit:
  assumes "shape b = shape a" "length (samples b) = length (samples a)"
  shows "addWeighted a 1 b 0 0 = Inr a"
proof -
  have "map2 (\<lambda>x y. saturate_cast_uchar (astype_float32 x * 1 + astype_float32 y * 0 + 0))
          (samples a) (samples b) = map fst (zip (samples a) (samples b))"
    by (simp add: saturate_cast_uchar_byte case_prod_beta)
  also have "\<dots> = samples a"
    using assms(2) by (simp add: map_fst_zip)
  finally show ?thesis
    using assms(1) by (simp add: addWeighted_def)
qed

lemma within_tolerance_refl: "0 \<le> tol \<Longrightarrow> within_tolerance tol a a"
  by (simp add: within_tolerance_def list_all2_same)

text \<open>
  Claim C2. For a raster with three channels, when the sharpening strength is 0, the
  noise reduction is 0, the saturation is 1 and the contrast is 1, and the blur
  returns a raster of the input's shape and size, the enhancement pipeline returns the
  input raster itself, without a warning; in particular every sample of the output is
  within 1 of the input's.
\<close>

theorem neutral_parameters_identity:
  assumes raster: "shape img = HWC h w 3"
    and neutral: "sharpening_strength p = 0" "noise_reduction p = 0"
                 "saturation p = 1" "contrast p = 1"
    and blur: "GaussianBlur cv img (0, 0) (real_of_int (blur_sigma p)) = Inr blurred"
              "shape blurred = shape img" "length (samples blurred) = length (samples img)"
  shows "enhancement_pipeline cv img p = (Inr img, []) \<and>
         (\<exists>out. fst (enhancement_pipeline cv img p) = Inr out \<and> within_tolerance 1 out img)"
proof -
  have sharp: "unsharp_mask cv img p = Inr img"
    using blur neutral(1) by (simp add: unsharp_mask_def addWeighted_unit)
  have noise: "reduce_noise cv img p = Inr img"
    using neutral(2) by (simp add: reduce_noise_def)
  have color: "color_enhance cv img p = Inr img"
    using neutral(3,4) by (simp add: color_enhance_def)
  have stages: "enhance_stages cv img p = Inr img"
    by (simp add: enhance_stages_def after_sharpen_def sharp noise color)
  have "\<not> is_grayscale img"
    using raster by (simp add: is_grayscale_def)
  then have run: "enhancement_pipeline cv img p = (Inr img, [])"
    by (simp add: enhancement_pipeline_def stages ensure_color_def)
  moreover have "within_tolerance 1 img img"
    by (rule within_tolerance_refl) simp
  ultimately show ?thesis by simp
qed

lemma sim_cv2_fields:
  "GaussianBlur sim_cv2 = sim_blur"
  "fastNlMeansDenoisingColored sim_cv2 = sim_denoise"
  "cvtColor sim_cv2 = sim_cvtColor"
  by (simp_all add: sim_cv2_def)

text \<open>
  The neutral parameters on the simulated library: the blur flattens the raster, and
  the output is still the input.
\<close>

theorem neutral_parameters_identity_witness:
  "shape sim_rgb = HWC 1 2 3 \<and>
   GaussianBlur sim_cv2 sim_rgb (0, 0) 3 =
     Inr \<lparr> shape = HWC 1 2 3, samples = [128, 128, 128, 128, 128, 128] \<rparr> \<and>
   enhancement_pipeline sim_cv2 sim_rgb
     \<lparr> sharpening_strength = 0, blur_sigma = 3, jpeg_quality = 95,
       noise_reduction = 0, saturation = 1, contrast = 1 \<rparr> =
     (Inr \<lparr> shape = HWC 1 2 3, samples = [200, 100, 0, 10, 20, 30] \<rparr>, [])"
proof -
  have b: "GaussianBlur sim_cv2 sim_rgb (0, 0) 3 =
     Inr \<lparr> shape = HWC 1 2 3, samples = [128, 128, 128, 128, 128, 128] \<rparr>"
    by (simp add: sim_cv2_fields sim_blur_def sim_rgb_def)
  show ?thesis
    using neutral_parameters_identity [of sim_rgb 1 2
        "\<lparr> sharpening_strength = 0, blur_sigma = 3, jpeg_quality = 95,
           noise_reduction = 0, saturation = 1, contrast = 1 \<rparr>"
        sim_cv2 "\<lparr> shape = HWC 1 2 3, samples = [128, 128, 128, 128, 128, 128] \<rparr>"] b
    by (simp add: sim_rgb_def)
qed

lemma addWeighted_Inr:
  assumes "addWeighted a alpha b beta gamma = Inr r"
  shows "shape b = shape a \<and> shape r = shape a \<and>
         length (samples r) = min (length (samples a)) (length (samples b)) \<and>
         (\<forall>i<length (samples r).
            int (unat (samples r ! i)) =
              max 0 (min 255 (cvRound (real (unat (samples a ! i)) * alpha +
                                       real (unat (samples b ! i)) * beta + gamma))))"
proof -
  from assms have sh: "shape a = shape b"
    by (auto simp: addWeighted_def split: if_splits)
  with assms have r: "r = \<lparr> shape = shape a,
        samples = map2 (\<lambda>x y. saturate_cast_uchar
                      (astype_float32 x * alpha + astype_float32 y * beta + gamma))
                    (samples a) (samples b) \<rparr>"
    by (simp add: addWeighted_def)
  show ?thesis
    using sh by (simp add: r int_unat_saturate_cast astype_float32_def del: of_nat_unat)
qed

text \<open>
  Claim C3. For every raster and all parameters the pipeline starts with the Gaussian
  blur of the raster with kernel size (0, 0) and \<^verbatim>\<open>sigmaX\<close> = blur sigma (no sigma of
  its own for the second axis), and goes on from the weighted sum of the raster and its
  blur with weights 1 + strength and - strength; no parameter value skips the stage.
  Each sample of the weighted sum is the affine combination of the original and the
  blurred sample, rounded to an integer and clamped to 0..255.
\<close>

theorem sharpening_always_applied:
  "enhancement_pipeline cv img p =
     (case GaussianBlur cv img (0, 0) (real_of_int (blur_sigma p)) of
        Inl e \<Rightarrow> (Inl e, [])
      | Inr blurred \<Rightarrow>
          (case addWeighted img (1 + sharpening_strength p) blurred
                  (- sharpening_strength p) 0 of
             Inl e \<Rightarrow> (Inl e, [])
           | Inr sharpened \<Rightarrow>
               (case after_sharpen cv sharpened p of
                  Inl e \<Rightarrow> (Inl e, [])
                | Inr enhanced \<Rightarrow> ensure_color cv enhanced))) \<and>
   (\<forall>blurred sharpened.
      addWeighted img (1 + sharpening_strength p) blurred (- sharpening_strength p) 0
        = Inr sharpened \<longrightarrow>
      shape blurred = shape img \<and> shape sharpened = shape img \<and>
      length (samples sharpened) = min (length (samples img)) (length (samples blurred)) \<and>
      (\<forall>i<length (samples sharpened).
         int (unat (samples sharpened ! i)) =
           max 0 (min 255 (cvRound
             (real (unat (samples img ! i)) * (1 + sharpening_strength p) +
              real (unat (samples blurred ! i)) * (- sharpening_strength p) + 0)))))"
proof (rule conjI)
  show "enhancement_pipeline cv img p =
     (case GaussianBlur cv img (0, 0) (real_of_int (blur_sigma p)) of
        Inl e \<Rightarrow> (Inl e, [])
      | Inr blurred \<Rightarrow>
          (case addWeighted img (1 + sharpening_strength p) blurred
                  (- sharpening_strength p) 0 of
             Inl e \<Rightarrow> (Inl e, [])
           | Inr sharpened \<Rightarrow>
               (case after_sharpen cv sharpened p of
                  Inl e \<Rightarrow> (Inl e, [])
                | Inr enhanced \<Rightarrow> ensure_color cv enhanced)))"
    by (simp add: enhancement_pipeline_def enhance_stages_def unsharp_mask_def
        split: sum.splits)
next
  show "\<forall>blurred sharpened.
      addWeighted img (1 + sharpening_strength p) blurred (- sharpening_strength p) 0
        = Inr sharpened \<longrightarrow>
      shape blurred = shape img \<and> shape sharpened = shape img \<and>
      length (samples sharpened) = min (length (samples img)) (length (samples blurred)) \<and>
      (\<forall>i<length (samples sharpened).
         int (unat (samples sharpened ! i)) =
           max 0 (min 255 (cvRound
             (real (unat (samples img ! i)) * (1 + sharpening_strength p) +
              real (unat (samples blurred ! i)) * (- sharpening_strength p) + 0))))"
    by (intro allI impI) (erule addWeighted_Inr)
qed

text \<open>Strength 1.5 on the simulated library: 200 * 2.5 - 128 * 1.5 = 308 is clamped to 255.\<close>

theorem sharpening_always_applied_witness:
  "GaussianBlur sim_cv2 sim_rgb (0, 0) 3 =
     Inr \<lparr> shape = HWC 1 2 3, samples = [128, 128, 128, 128, 128, 128] \<rparr> \<and>
   addWeighted sim_rgb 2.5
     \<lparr> shape = HWC 1 2 3, samples = [128, 128, 128, 128, 128, 128] \<rparr> (- 1.5) 0 =
     Inr \<lparr> shape = HWC 1 2 3, samples = [255, 58, 0, 0, 0, 0] \<rparr> \<and>
   enhancement_pipeline sim_cv2 sim_rgb
     \<lparr> sharpening_strength = 1.5, blur_sigma = 3, jpeg_quality = 95,
       noise_reduction = 0, saturation = 1, contrast = 1 \<rparr> =
     (Inr \<lparr> shape = HWC 1 2 3, samples = [255, 58, 0, 0, 0, 0] \<rparr>, [])"
proof -
  have b: "GaussianBlur sim_cv2 sim_rgb (0, 0) 3 =
     Inr \<lparr> shape = HWC 1 2 3, samples = [128, 128, 128, 128, 128, 128] \<rparr>"
    by (simp add: sim_cv2_fields sim_blur_def sim_rgb_def)
  have a: "addWeighted sim_rgb 2.5
     \<lparr> shape = HWC 1 2 3, samples = [128, 128, 128, 128, 128, 128] \<rparr> (- 1.5) 0 =
     Inr \<lparr> shape = HWC 1 2 3, samples = [255, 58, 0, 0, 0, 0] \<rparr>"
    by (simp add: addWeighted_def sim_rgb_def saturate_cast_uchar_def cvRound_def
        astype_float32_def)
  have c: "after_sharpen sim_cv2 \<lparr> shape = HWC 1 2 3, samples = [255, 58, 0, 0, 0, 0] \<rparr>
     \<lparr> sharpening_strength = 1.5, blur_sigma = 3, jpeg_quality = 95,
       noise_reduction = 0, saturation = 1, contrast = 1 \<rparr> =
     Inr \<lparr> shape = HWC 1 2 3, samples = [255, 58, 0, 0, 0, 0] \<rparr>"
    by (simp add: after_sharpen_def reduce_noise_def color_enhance_def)
  have g: "ensure_color sim_cv2 \<lparr> shape = HWC 1 2 3, samples = [255, 58, 0, 0, 0, 0] \<rparr> =
     (Inr \<lparr> shape = HWC 1 2 3, samples = [255, 58, 0, 0, 0, 0] \<rparr>, [])"
    by (simp add: ensure_color_def is_grayscale_def)
  show ?thesis
    using sharpening_always_applied [of sim_cv2 sim_rgb
        "\<lparr> sharpening_strength = 1.5, blur_sigma = 3, jpeg_quality = 95,
           noise_reduction = 0, saturation = 1, contrast = 1 \<rparr>"] a b c g
    by simp
qed

subsection \<open>Bytes as real numbers\<close>

lemma real_byte_le: "real (unat (s :: uint8)) \<le> 255"
proof -
  have "unat s < 2 ^ 8"
    using unsigned_less [of s] by simp
  then have "unat s \<le> 255" by simp
  then have "real (unat s) \<le> real 255" by (rule of_nat_mono)
  then show ?thesis by simp
qed

lemma floor_clip_byte: "\<lfloor>min 255 (max 0 (real (unat (s :: uint8))))\<rfloor> = int (unat s)"
proof -
  have ge: "0 \<le> real (unat s)" by (rule of_nat_0_le_iff)
  have "min 255 (max 0 x) = x" if "0 \<le> x" "x \<le> 255" for x :: real
    using that by simp
  from this [OF ge real_byte_le] show ?thesis
    by (simp only: floor_of_nat)
qed

lemma raster_eta: "\<lparr> shape = shape r, samples = samples r \<rparr> = (r :: raster)"
  by (cases r) simp

subsection \<open>Rounding to binary32\<close>

lemma rint_of_int: "rint (of_int k) = k"
  by (simp add: rint_def)

lemma top_exponent_eq:
  "2 powi e \<le> a \<Longrightarrow> a < 2 powi (e + 1) \<Longrightarrow> - 126 \<le> e \<Longrightarrow> e < int n - 126 \<Longrightarrow>
   top_exponent n a = e"
proof (induction n)
  case 0
  then show ?case by simp
next
  case (Suc n)
  show ?case
  proof (cases "2 powi (int n - 126) \<le> a")
    case True
    have "int n - 126 < e + 1"
    proof (rule ccontr)
      assume "\<not> int n - 126 < e + 1"
      then have "e + 1 \<le> int n - 126" by simp
      then have "(2::real) powi (e + 1) \<le> 2 powi (int n - 126)"
        by (rule power_int_increasing) simp
      with True Suc.prems(2) show False by simp
    qed
    with Suc.prems(4) have "int n - 126 = e" by simp
    with True show ?thesis by simp
  next
    case False
    with Suc.prems(1) have "e \<noteq> int n - 126" by auto
    with Suc.prems(4) have "e < int n - 126" by simp
    from Suc.IH [OF Suc.prems(1,2,3) this] False show ?thesis by simp
  qed
qed

lemma top_exponent_cases: "2 powi (top_exponent n a) \<le> a \<or> top_exponent n a = - 126"
  by (induction n) simp_all

lemma f32_exponent_eq:
  assumes "2 powi e \<le> \<bar>x\<bar>" "\<bar>x\<bar> < 2 powi (e + 1)" "- 126 \<le> e" "e \<le> 127"
  shows "f32_exponent x = e"
  unfolding f32_exponent_def using assms by (intro top_exponent_eq) simp_all

lemma f32_eval:
  assumes "2 powi e \<le> \<bar>x\<bar>" "\<bar>x\<bar> < 2 powi (e + 1)" "- 126 \<le> e" "e \<le> 127"
  shows "f32 x = of_int (rint (x / 2 powi (e - 23))) * 2 powi (e - 23)"
  by (simp add: f32_def Let_def f32_exponent_eq [OF assms])

lemma f32_exact:
  assumes "\<bar>k\<bar> < 2 ^ 24" "- 149 \<le> j"
  shows "f32 (of_int k * 2 powi j) = of_int k * 2 powi j"
proof -
  define x :: real where "x = of_int k * 2 powi j"
  define e where "e = f32_exponent x"
  have "e - 23 \<le> j"
  proof (cases "2 powi e \<le> \<bar>x\<bar>")
    case True
    have "\<bar>x\<bar> = of_int \<bar>k\<bar> * 2 powi j"
      by (simp add: x_def abs_mult power_int_abs)
    also have "\<dots> < 2 ^ 24 * 2 powi j"
      using assms(1) by (intro mult_strict_right_mono) (simp_all add: of_int_less_iff [of _ "2 ^ 24", simplified])
    also have "\<dots> = 2 powi (24 + j)"
      by (simp add: power_int_add)
    finally have lt: "\<bar>x\<bar> < 2 powi (24 + j)" .
    have "e < 24 + j"
    proof (rule ccontr)
      assume "\<not> e < 24 + j"
      then have "24 + j \<le> e" by simp
      then have "(2::real) powi (24 + j) \<le> 2 powi e"
        by (rule power_int_increasing) simp
      with True lt show False by simp
    qed
    then show ?thesis by simp
  next
    case False
    with top_exponent_cases [of 254 "\<bar>x\<bar>"] have "e = - 126"
      by (simp add: e_def f32_exponent_def)
    with assms(2) show ?thesis by simp
  qed
  then obtain m :: nat where m: "j = e - 23 + int m"
    by (metis add.commute diff_add_cancel nonneg_int_cases diff_ge_0_iff_ge)
  have "x / 2 powi (e - 23) = of_int k * (2 powi j / 2 powi (e - 23))"
    by (simp add: x_def)
  also have "2 powi j / 2 powi (e - 23) = (2::real) powi (j - (e - 23))"
    by (simp add: power_int_diff)
  also have "j - (e - 23) = int m" using m by simp
  finally have "x / 2 powi (e - 23) = of_int (k * 2 ^ m)"
    by simp
  then have "rint (x / 2 powi (e - 23)) = k * 2 ^ m"
    by (simp only: rint_of_int)
  then have "f32 x = of_int (k * 2 ^ m) * 2 powi (e - 23)"
    by (simp add: f32_def Let_def e_def)
  also have "\<dots> = of_int k * (2 powi int m * 2 powi (e - 23))"
    by simp
  also have "2 powi int m * 2 powi (e - 23) = (2::real) powi (int m + (e - 23))"
    by (simp add: power_int_add)
  also have "int m + (e - 23) = j" using m by simp
  finally show ?thesis by (simp add: x_def)
qed

lemma f32_of_int:
  assumes "\<bar>k\<bar> < 2 ^ 24"
  shows "f32 (of_int k) = of_int k"
  using f32_exact [OF assms, of 0] by simp

lemma f32_one: "f32 1 = 1"
  using f32_of_int [of 1] by simp

lemma real_unat_uint: "real (unat (s :: uint8)) = of_int (uint s)"
  by simp

lemma f32_byte: "f32 (real (unat (s :: uint8))) = real (unat s)"
proof -
  have "uint s < 2 ^ 8" using uint_lt2p [of s] by simp
  then have "\<bar>uint s\<bar> < 2 ^ 24" by simp
  from f32_of_int [OF this] show ?thesis
    by (simp only: real_unat_uint)
qed

lemma f32_byte_minus_half:
  "f32 (real (unat (s :: uint8)) - 127.5) = real (unat s) - 127.5"
proof -
  have "0 \<le> uint s" and "uint s < 256"
    using uint_lt2p [of s] by simp_all
  then have "\<bar>2 * uint s - 255\<bar> < 16777216" by linarith
  then have "\<bar>2 * uint s - 255\<bar> < 2 ^ 24" by simp
  from f32_exact [OF this, of "- 1"]
  have "f32 (of_int (2 * uint s - 255) * 2 powi (- 1)) =
        of_int (2 * uint s - 255) * 2 powi (- 1)" by simp
  moreover have "of_int (2 * uint s - 255) * 2 powi (- 1) = real (unat s) - 127.5"
    by (simp add: power_int_minus field_simps)
  ultimately show ?thesis by (simp only:)
qed

subsection \<open>The contrast and saturation stages\<close>

lemma pipeline_stages:
  "enhancement_pipeline cv img p =
     (case unsharp_mask cv img p of
        Inl e \<Rightarrow> (Inl e, [])
      | Inr sharpened \<Rightarrow>
          (case reduce_noise cv sharpened p of
             Inl e \<Rightarrow> (Inl e, [])
           | Inr denoised \<Rightarrow>
               (case color_enhance cv denoised p of
                  Inl e \<Rightarrow> (Inl e, [])
                | Inr enhanced \<Rightarrow> ensure_color cv enhanced)))"
  by (simp add: enhancement_pipeline_def enhance_stages_def after_sharpen_def
      split: sum.splits)

lemma samples_adjust_contrast:
  "samples (adjust_contrast enhanced c) =
     map (\<lambda>s. astype_uint8
                (np_clip (f32 (f32 (f32 (astype_float32 s - 127.5) * f32 c) + 127.5)) 0 255))
       (samples enhanced)"
  by (simp add: adjust_contrast_def)

lemma contrast_sample:
  "int (unat (astype_uint8
      (np_clip (f32 (f32 (f32 (astype_float32 s - 127.5) * f32 c) + 127.5)) 0 255))) =
   \<lfloor>min 255 (max 0 (f32 (f32 ((real (unat s) - 127.5) * f32 c) + 127.5)))\<rfloor>"
  by (simp only: int_unat_astype_clip astype_float32_def f32_byte_minus_half)

lemma adjust_contrast_samples:
  "shape (adjust_contrast enhanced c) = shape enhanced \<and>
   length (samples (adjust_contrast enhanced c)) = length (samples enhanced) \<and>
   (\<forall>i<length (samples enhanced).
      int (unat (samples (adjust_contrast enhanced c) ! i)) =
        \<lfloor>min 255 (max 0
           (f32 (f32 ((real (unat (samples enhanced ! i)) - 127.5) * f32 c) + 127.5)))\<rfloor>)"
proof (intro conjI allI impI)
  show "shape (adjust_contrast enhanced c) = shape enhanced"
    by (simp add: adjust_contrast_def)
  show "length (samples (adjust_contrast enhanced c)) = length (samples enhanced)"
    by (simp only: samples_adjust_contrast length_map)
  fix i assume "i < length (samples enhanced)"
  then show "int (unat (samples (adjust_contrast enhanced c) ! i)) =
        \<lfloor>min 255 (max 0
           (f32 (f32 ((real (unat (samples enhanced ! i)) - 127.5) * f32 c) + 127.5)))\<rfloor>"
    by (simp only: samples_adjust_contrast nth_map contrast_sample)
qed

text \<open>
  Claim C4, as amended. In the enhancement pipeline the contrast adjustment is applied
  exactly when the contrast differs from 1, to the raster that came back from HSV. It
  maps every sample to (sample - 127.5) * contrast + 127.5 computed in binary32 (the
  contrast is converted to binary32, the product and the sum are each rounded to
  binary32), clamped to [0, 255], with the fractional part discarded: the stored sample
  is the floor of the clamped value, not the nearest integer.
\<close>

theorem contrast_truncates:
  "enhancement_pipeline cv img p =
     (case unsharp_mask cv img p of
        Inl e \<Rightarrow> (Inl e, [])
      | Inr sharpened \<Rightarrow>
          (case reduce_noise cv sharpened p of
             Inl e \<Rightarrow> (Inl e, [])
           | Inr denoised \<Rightarrow>
               (if contrast p = 1 then
                  (if saturation p = 1 then ensure_color cv denoised
                   else (case saturation_stage cv denoised p of
                           Inl e \<Rightarrow> (Inl e, [])
                         | Inr enhanced \<Rightarrow> ensure_color cv enhanced))
                else
                  (case saturation_stage cv denoised p of
                     Inl e \<Rightarrow> (Inl e, [])
                   | Inr enhanced \<Rightarrow>
                       ensure_color cv (adjust_contrast enhanced (contrast p)))))) \<and>
   shape (adjust_contrast enhanced c) = shape enhanced \<and>
   length (samples (adjust_contrast enhanced c)) = length (samples enhanced) \<and>
   (\<forall>i<length (samples enhanced).
      int (unat (samples (adjust_contrast enhanced c) ! i)) =
        \<lfloor>min 255 (max 0
           (f32 (f32 ((real (unat (samples enhanced ! i)) - 127.5) * f32 c) + 127.5)))\<rfloor>)"
proof -
  have "enhancement_pipeline cv img p =
     (case unsharp_mask cv img p of
        Inl e \<Rightarrow> (Inl e, [])
      | Inr sharpened \<Rightarrow>
          (case reduce_noise cv sharpened p of
             Inl e \<Rightarrow> (Inl e, [])
           | Inr denoised \<Rightarrow>
               (if contrast p = 1 then
                  (if saturation p = 1 then ensure_color cv denoised
                   else (case saturation_stage cv denoised p of
                           Inl e \<Rightarrow> (Inl e, [])
                         | Inr enhanced \<Rightarrow> ensure_color cv enhanced))
                else
                  (case saturation_stage cv denoised p of
                     Inl e \<Rightarrow> (Inl e, [])
                   | Inr enhanced \<Rightarrow>
                       ensure_color cv (adjust_contrast enhanced (contrast p))))))"
    by (simp add: pipeline_stages color_enhance_def split: sum.splits)
  then show ?thesis
    by (rule conjI [OF _ adjust_contrast_samples])
qed

lemma f32_eq:
  assumes "x = of_int k * 2 powi j" "\<bar>k\<bar> < 2 ^ 24" "- 149 \<le> j"
  shows "f32 x = x"
  unfolding assms(1) using assms(2,3) by (rule f32_exact)

lemma contrast_sample_101:
  "astype_uint8 (np_clip (f32 (f32 (f32 (astype_float32 101 - 127.5) * f32 1.5) + 127.5)) 0 255)
     = 87"
proof -
  have a: "f32 (astype_float32 101 - 127.5) = astype_float32 101 - 127.5"
    by (rule f32_eq [where k = "- 53" and j = "- 1"])
       (simp_all add: astype_float32_def power_int_minus)
  have v: "f32 (astype_float32 101 - 127.5) = - (53 / 2)"
    unfolding a by (simp add: astype_float32_def)
  have c15: "f32 1.5 = 1.5"
    by (rule f32_eq [where k = 3 and j = "- 1"]) (simp_all add: power_int_minus)
  have b: "f32 (- (53 / 2) * 1.5) = - (53 / 2) * 1.5"
    by (rule f32_eq [where k = "- 159" and j = "- 2"]) (simp_all add: power_int_minus)
  have c: "f32 (- (53 / 2) * 1.5 + 127.5) = - (53 / 2) * 1.5 + 127.5"
    by (rule f32_eq [where k = 351 and j = "- 2"]) (simp_all add: power_int_minus)
  have "astype_uint8 (np_clip (- (53 / 2) * 1.5 + 127.5) 0 255) = 87"
    by (simp add: astype_uint8_def np_clip_def py_int_def)
  then show ?thesis
    by (simp only: v c15 b c)
qed

text \<open>
  Claim C4 as stated fails: with contrast 1.5 the sample 101 becomes exactly 87.75 and
  is stored as 87, where rounding gives 88.
\<close>

theorem contrast_round_counterexample:
  "samples (adjust_contrast \<lparr> shape = HWC 1 1 3, samples = [101, 101, 101] \<rparr> 1.5)
     = [87, 87, 87] \<and>
   round (np_clip ((astype_float32 101 - 127.5) * 1.5 + 127.5) 0 255) = 88"
proof
  show "samples (adjust_contrast \<lparr> shape = HWC 1 1 3, samples = [101, 101, 101] \<rparr> 1.5)
     = [87, 87, 87]"
    by (simp only: samples_adjust_contrast raster.simps list.map contrast_sample_101)
  show "round (np_clip ((astype_float32 101 - 127.5) * 1.5 + 127.5) 0 255) = 88"
    by (simp add: np_clip_def astype_float32_def round_def)
qed

lemma contrast_sample_15:
  "astype_uint8 (np_clip (f32 (f32 (f32 (astype_float32 15 - 127.5) * f32 1.08) + 127.5)) 0 255)
     = 5"
proof -
  have v: "f32 (astype_float32 15 - 127.5) = - (225 / 2)"
    using f32_byte_minus_half [of 15] by (simp add: astype_float32_def)
  have c: "f32 1.08 = 9059697 / 8388608"
    using f32_eval [of 0 "1.08"] by (simp add: rint_def)
  have m: "f32 (- (225 / 2) * (9059697 / 8388608)) = - (15925249 / 131072)"
    using f32_eval [of 6 "- (225 / 2) * (9059697 / 8388608)"] by (simp add: rint_def)
  have a: "f32 (- (15925249 / 131072) + 127.5) = 786431 / 131072"
    using f32_eval [of 2 "- (15925249 / 131072) + 127.5"] by (simp add: rint_def)
  have "astype_uint8 (np_clip (786431 / 131072) 0 255) = 5"
    by (simp add: astype_uint8_def np_clip_def py_int_def)
  then show ?thesis
    by (simp only: v c m a)
qed


text \<open>
  Contrast 1.08 on the sample 15, with the simulated library: in binary32 the value is
  just below 6, and 5 is stored.
\<close>

theorem contrast_truncates_witness:
  "enhancement_pipeline sim_cv2 \<lparr> shape = HWC 1 1 3, samples = [15, 15, 15] \<rparr>
     \<lparr> sharpening_strength = 0, blur_sigma = 3, jpeg_quality = 95,
       noise_reduction = 0, saturation = 1, contrast = 1.08 \<rparr> =
     (Inr \<lparr> shape = HWC 1 1 3, samples = [5, 5, 5] \<rparr>, []) \<and>
   \<lfloor>min 255 (max 0 (f32 (f32 ((real (unat (15 :: uint8)) - 127.5) * f32 1.08) + 127.5)))\<rfloor>
     = (5 :: int)"
proof -
  let ?img = "\<lparr> shape = HWC 1 1 3, samples = [15, 15, 15] \<rparr>"
  let ?p = "\<lparr> sharpening_strength = 0, blur_sigma = 3, jpeg_quality = 95,
       noise_reduction = 0, saturation = 1, contrast = 1.08 \<rparr>"
  have u: "unsharp_mask sim_cv2 ?img ?p = Inr ?img"
    by (simp add: unsharp_mask_def sim_cv2_fields sim_blur_def addWeighted_def
        saturate_cast_uchar_def cvRound_def astype_float32_def)
  have n: "reduce_noise sim_cv2 ?img ?p = Inr ?img"
    by (simp add: reduce_noise_def)
  have s: "saturation_stage sim_cv2 ?img ?p = Inr ?img"
    by (simp add: saturation_stage_def sim_cv2_fields sim_cvtColor_def three_channels_def
        astype_uint8_float32)
  have k: "adjust_contrast ?img 1.08 = \<lparr> shape = HWC 1 1 3, samples = [5, 5, 5] \<rparr>"
    unfolding adjust_contrast_def
    by (simp only: raster.simps list.map contrast_sample_15)
  have g: "ensure_color sim_cv2 \<lparr> shape = HWC 1 1 3, samples = [5, 5, 5] \<rparr> =
      (Inr \<lparr> shape = HWC 1 1 3, samples = [5, 5, 5] \<rparr>, [])"
    by (simp add: ensure_color_def is_grayscale_def)
  have fl: "\<lfloor>min 255 (max 0
      (f32 (f32 ((real (unat (15 :: uint8)) - 127.5) * f32 1.08) + 127.5)))\<rfloor> = (5 :: int)"
    using contrast_sample [of 15 "1.08"] unfolding contrast_sample_15 by simp
  have run: "enhancement_pipeline sim_cv2 ?img ?p =
      (Inr \<lparr> shape = HWC 1 1 3, samples = [5, 5, 5] \<rparr>, [])"
    using contrast_truncates [of sim_cv2 ?img ?p ?img "1.08"] u n s k g by simp
  from run fl show ?thesis by (rule conjI)
qed

lemma adjust_saturation_Inr:
  assumes "adjust_saturation shp xs sat = Inr ys"
  shows "length ys = length xs \<and>
         (\<forall>i<length xs. ys ! i =
            (if channel_index shp i = 1 then np_clip (f32 (xs ! i * f32 sat)) 0 255
             else xs ! i))"
proof (cases shp)
  case (HW h w)
  with assms show ?thesis by (simp add: adjust_saturation_def)
next
  case (HWC h w c)
  with assms have ys: "ys = map_channel1 c (\<lambda>v. np_clip v 0 255)
                              (map_channel1 c (\<lambda>v. f32 (v * f32 sat)) xs)"
    by (simp add: adjust_saturation_def split: if_splits)
  show ?thesis
    by (simp add: ys HWC channel_index_def length_map_channel1 nth_map_channel1)
qed

lemma adjust_saturation_Inl:
  "(\<exists>e. adjust_saturation shp xs sat = Inl e) \<longleftrightarrow>
   (case shp of HW h w \<Rightarrow> True | HWC h w c \<Rightarrow> c < 2)"
  by (simp add: adjust_saturation_def split: shape.splits)

lemma unchanged_sample:
  "int (unat (s :: uint8)) = \<lfloor>min 255 (max 0 (f32 (real (unat s) * f32 1)))\<rfloor>"
  by (simp only: f32_one mult_1_right f32_byte floor_clip_byte)

lemma saturation_stage_cases:
  "(case cvtColor cv denoised COLOR_BGR2HSV of
      Inl e \<Rightarrow> saturation_stage cv denoised p = Inl e
    | Inr hsv8 \<Rightarrow>
        if saturation p \<noteq> 1 \<and> (case shape hsv8 of HW h w \<Rightarrow> True | HWC h w c \<Rightarrow> c < 2)
        then (\<exists>e. saturation_stage cv denoised p = Inl e)
        else (\<exists>hsv'.
                shape hsv' = shape hsv8 \<and>
                length (samples hsv') = length (samples hsv8) \<and>
                (\<forall>i<length (samples hsv8).
                   int (unat (samples hsv' ! i)) =
                     \<lfloor>min 255 (max 0 (f32 (real (unat (samples hsv8 ! i)) *
                         f32 (if channel_index (shape hsv8) i = 1 then saturation p
                              else 1))))\<rfloor>) \<and>
                saturation_stage cv denoised p = cvtColor cv hsv' COLOR_HSV2BGR))"
proof (cases "cvtColor cv denoised COLOR_BGR2HSV")
  case (Inl e)
  then show ?thesis by (simp add: saturation_stage_def)
next
  case (Inr hsv8)
  show ?thesis
  proof (cases "saturation p = 1")
    case True
    have same: "map astype_uint8 (map astype_float32 (samples hsv8)) = samples hsv8"
      by (simp add: astype_uint8_float32 comp_def)
    have "saturation_stage cv denoised p =
        cvtColor cv \<lparr> shape = shape hsv8,
          samples = map astype_uint8 (map astype_float32 (samples hsv8)) \<rparr> COLOR_HSV2BGR"
      using Inr True by (simp add: saturation_stage_def)
    then have st: "saturation_stage cv denoised p = cvtColor cv hsv8 COLOR_HSV2BGR"
      unfolding same raster_eta .
    have pt: "int (unat (samples hsv8 ! i)) =
        \<lfloor>min 255 (max 0 (f32 (real (unat (samples hsv8 ! i)) *
            f32 (if channel_index (shape hsv8) i = 1 then saturation p else 1))))\<rfloor>" for i
      by (simp only: True if_cancel) (rule unchanged_sample)
    have "\<exists>hsv'.
            shape hsv' = shape hsv8 \<and>
            length (samples hsv') = length (samples hsv8) \<and>
            (\<forall>i<length (samples hsv8).
               int (unat (samples hsv' ! i)) =
                 \<lfloor>min 255 (max 0 (f32 (real (unat (samples hsv8 ! i)) *
                     f32 (if channel_index (shape hsv8) i = 1 then saturation p
                          else 1))))\<rfloor>) \<and>
            saturation_stage cv denoised p = cvtColor cv hsv' COLOR_HSV2BGR"
      by (intro exI [of _ hsv8] conjI allI impI refl pt st)
    with Inr True show ?thesis by simp
  next
    case False
    show ?thesis
    proof (cases "case shape hsv8 of HW h w \<Rightarrow> True | HWC h w c \<Rightarrow> c < 2")
      case True
      then obtain e where
        "adjust_saturation (shape hsv8) (map astype_float32 (samples hsv8)) (saturation p)
           = Inl e"
        using adjust_saturation_Inl by blast
      with Inr False have "saturation_stage cv denoised p = Inl e"
        by (simp add: saturation_stage_def)
      with Inr False True show ?thesis by auto
    next
      case good: False
      then obtain hsv where
        adj: "adjust_saturation (shape hsv8) (map astype_float32 (samples hsv8)) (saturation p)
              = Inr hsv"
        using adjust_saturation_Inl [of "shape hsv8" "map astype_float32 (samples hsv8)"
            "saturation p"]
        by (cases "adjust_saturation (shape hsv8) (map astype_float32 (samples hsv8))
              (saturation p)") auto
      with Inr False have st: "saturation_stage cv denoised p =
          cvtColor cv \<lparr> shape = shape hsv8, samples = map astype_uint8 hsv \<rparr> COLOR_HSV2BGR"
        by (simp add: saturation_stage_def)
      from adjust_saturation_Inr [OF adj] have
        len: "length hsv = length (samples hsv8)"
        and nth: "\<And>i. i < length (samples hsv8) \<Longrightarrow>
           hsv ! i = (if channel_index (shape hsv8) i = 1
                      then np_clip (f32 (astype_float32 (samples hsv8 ! i) * f32 (saturation p)))
                             0 255
                      else astype_float32 (samples hsv8 ! i))"
        by simp_all
      have pt: "int (unat (map astype_uint8 hsv ! i)) =
              \<lfloor>min 255 (max 0 (f32 (real (unat (samples hsv8 ! i)) *
                  f32 (if channel_index (shape hsv8) i = 1 then saturation p else 1))))\<rfloor>"
        if "i < length (samples hsv8)" for i
      proof (cases "channel_index (shape hsv8) i = 1")
        case True
        with nth [OF that] have
          "hsv ! i = np_clip (f32 (astype_float32 (samples hsv8 ! i) * f32 (saturation p))) 0 255"
          by simp
        then have "map astype_uint8 hsv ! i =
            astype_uint8 (np_clip (f32 (real (unat (samples hsv8 ! i)) * f32 (saturation p)))
              0 255)"
          using that len by (simp add: astype_float32_def)
        then show ?thesis
          using True by (simp only: if_True int_unat_astype_clip simp_thms)
      next
        case False
        with nth [OF that] have "hsv ! i = astype_float32 (samples hsv8 ! i)"
          by simp
        then have "map astype_uint8 hsv ! i = samples hsv8 ! i"
          using that len by (simp add: astype_uint8_float32)
        then show ?thesis
          using False by (simp only: if_False) (rule unchanged_sample)
      qed
      have "\<exists>hsv'.
              shape hsv' = shape hsv8 \<and>
              length (samples hsv') = length (samples hsv8) \<and>
              (\<forall>i<length (samples hsv8).
                 int (unat (samples hsv' ! i)) =
                   \<lfloor>min 255 (max 0 (f32 (real (unat (samples hsv8 ! i)) *
                       f32 (if channel_index (shape hsv8) i = 1 then saturation p
                            else 1))))\<rfloor>) \<and>
              saturation_stage cv denoised p = cvtColor cv hsv' COLOR_HSV2BGR"
        using pt len st
        by (intro exI [of _ "\<lparr> shape = shape hsv8, samples = map astype_uint8 hsv \<rparr>"])
           simp
      with Inr False good show ?thesis by simp
    qed
  qed
qed

text \<open>
  Claim C5. In the enhancement pipeline the saturation stage runs exactly when the
  saturation or the contrast differs from 1; otherwise the raster passes unchanged.
  When it runs, the raster is converted to HSV, every sample of the saturation channel
  (channel 1) is multiplied by the saturation parameter (a binary32 product), every
  sample is clamped to 0..255 and stored as a byte, and the result is converted back
  to BGR and handed to the contrast adjustment. The stage fails when a conversion
  fails, or when the saturation differs from 1 and the HSV raster has no channel 1.
\<close>

theorem saturation_stage_runs:
  "enhancement_pipeline cv img p =
     (case unsharp_mask cv img p of
        Inl e \<Rightarrow> (Inl e, [])
      | Inr sharpened \<Rightarrow>
          (case reduce_noise cv sharpened p of
             Inl e \<Rightarrow> (Inl e, [])
           | Inr denoised \<Rightarrow>
               (if saturation p = 1 \<and> contrast p = 1 then ensure_color cv denoised
                else (case saturation_stage cv denoised p of
                        Inl e \<Rightarrow> (Inl e, [])
                      | Inr enhanced \<Rightarrow>
                          ensure_color cv
                            (if contrast p \<noteq> 1 then adjust_contrast enhanced (contrast p)
                             else enhanced))))) \<and>
   (case cvtColor cv denoised COLOR_BGR2HSV of
      Inl e \<Rightarrow> saturation_stage cv denoised p = Inl e
    | Inr hsv8 \<Rightarrow>
        if saturation p \<noteq> 1 \<and> (case shape hsv8 of HW h w \<Rightarrow> True | HWC h w c \<Rightarrow> c < 2)
        then (\<exists>e. saturation_stage cv denoised p = Inl e)
        else (\<exists>hsv'.
                shape hsv' = shape hsv8 \<and>
                length (samples hsv') = length (samples hsv8) \<and>
                (\<forall>i<length (samples hsv8).
                   int (unat (samples hsv' ! i)) =
                     \<lfloor>min 255 (max 0 (f32 (real (unat (samples hsv8 ! i)) *
                         f32 (if channel_index (shape hsv8) i = 1 then saturation p
                              else 1))))\<rfloor>) \<and>
                saturation_stage cv denoised p = cvtColor cv hsv' COLOR_HSV2BGR))"
proof -
  have "enhancement_pipeline cv img p =
     (case unsharp_mask cv img p of
        Inl e \<Rightarrow> (Inl e, [])
      | Inr sharpened \<Rightarrow>
          (case reduce_noise cv sharpened p of
             Inl e \<Rightarrow> (Inl e, [])
           | Inr denoised \<Rightarrow>
               (if saturation p = 1 \<and> contrast p = 1 then ensure_color cv denoised
                else (case saturation_stage cv denoised p of
                        Inl e \<Rightarrow> (Inl e, [])
                      | Inr enhanced \<Rightarrow>
                          ensure_color cv
                            (if contrast p \<noteq> 1 then adjust_contrast enhanced (contrast p)
                             else enhanced)))))"
    by (simp add: pipeline_stages color_enhance_def split: sum.splits)
  then show ?thesis
    by (rule conjI [OF _ saturation_stage_cases])
qed

text \<open>
  Saturation 1.3 on one pixel, with the simulated library: 90 becomes 116 (the binary32
  product is just below 117).
\<close>

theorem saturation_stage_runs_witness:
  "cvtColor sim_cv2 \<lparr> shape = HWC 1 1 3, samples = [10, 90, 200] \<rparr> COLOR_BGR2HSV =
     Inr \<lparr> shape = HWC 1 1 3, samples = [10, 90, 200] \<rparr> \<and>
   enhancement_pipeline sim_cv2 \<lparr> shape = HWC 1 1 3, samples = [10, 90, 200] \<rparr>
     \<lparr> sharpening_strength = 0, blur_sigma = 3, jpeg_quality = 95,
       noise_reduction = 0, saturation = 1.3, contrast = 1 \<rparr> =
     (Inr \<lparr> shape = HWC 1 1 3, samples = [10, 116, 200] \<rparr>, []) \<and>
   \<lfloor>min 255 (max 0 (f32 (real (unat (90 :: uint8)) * f32 1.3)))\<rfloor> = (116 :: int)"
proof -
  let ?img = "\<lparr> shape = HWC 1 1 3, samples = [10, 90, 200] \<rparr>"
  let ?p = "\<lparr> sharpening_strength = 0, blur_sigma = 3, jpeg_quality = 95,
       noise_reduction = 0, saturation = 1.3, contrast = 1 \<rparr>"
  have c: "f32 (13 / 10) = 5452595 / 4194304"
    using f32_eval [of 0 "13 / 10"] by (simp add: rint_def)
  have m: "f32 (245366775 / 2097152) = 15335423 / 131072"
    using f32_eval [of 6 "245366775 / 2097152"] by (simp add: rint_def)
  have h: "cvtColor sim_cv2 ?img COLOR_BGR2HSV = Inr ?img"
    by (simp add: sim_cv2_fields sim_cvtColor_def three_channels_def)
  have u: "unsharp_mask sim_cv2 ?img ?p = Inr ?img"
    by (simp add: unsharp_mask_def sim_cv2_fields sim_blur_def addWeighted_def
        saturate_cast_uchar_def cvRound_def astype_float32_def)
  have n: "reduce_noise sim_cv2 ?img ?p = Inr ?img"
    by (simp add: reduce_noise_def)
  have s: "saturation_stage sim_cv2 ?img ?p =
      Inr \<lparr> shape = HWC 1 1 3, samples = [10, 116, 200] \<rparr>"
    by (simp add: c m saturation_stage_def h astype_float32_def astype_uint8_def py_int_def
        adjust_saturation_def map_channel1_def np_clip_def enumerate_eq_zip upt_rec
        sim_cv2_fields sim_cvtColor_def three_channels_def)
  have g: "ensure_color sim_cv2 \<lparr> shape = HWC 1 1 3, samples = [10, 116, 200] \<rparr> =
      (Inr \<lparr> shape = HWC 1 1 3, samples = [10, 116, 200] \<rparr>, [])"
    by (simp add: ensure_color_def is_grayscale_def)
  have fl: "\<lfloor>min 255 (max 0 (f32 (real (unat (90 :: uint8)) * f32 1.3)))\<rfloor> = (116 :: int)"
    by (simp add: c m)
  have run: "enhancement_pipeline sim_cv2 ?img ?p =
      (Inr \<lparr> shape = HWC 1 1 3, samples = [10, 116, 200] \<rparr>, [])"
    using saturation_stage_runs [of sim_cv2 ?img ?p ?img] u n s g by simp
  from h run fl show ?thesis by (intro conjI)
qed

subsection \<open>The number of channels\<close>

lemma unsharp_mask_shape:
  assumes "unsharp_mask cv img p = Inr sharpened"
  shows "shape sharpened = shape img"
proof -
  from assms obtain blurred where
    "addWeighted img (1 + sharpening_strength p) blurred (- sharpening_strength p) 0
       = Inr sharpened"
    by (auto simp: unsharp_mask_def split: sum.splits)
  from addWeighted_Inr [OF this] show ?thesis by simp
qed

lemma reduce_noise_shape:
  assumes "shape_contract cv" "reduce_noise cv sharpened p = Inr denoised"
  shows "shape denoised = shape sharpened"
  using assms
  by (auto simp: reduce_noise_def shape_contract_def Let_def split: if_splits)

lemma three_channels_adjust_contrast:
  "three_channels (adjust_contrast enhanced c) = three_channels enhanced"
  by (simp add: three_channels_def adjust_contrast_def)

lemma saturation_stage_three_channels:
  assumes "shape_contract cv" "saturation_stage cv denoised p = Inr enhanced"
  shows "three_channels enhanced"
proof -
  from assms(2) obtain hsv where "cvtColor cv hsv COLOR_HSV2BGR = Inr enhanced"
    by (auto simp: saturation_stage_def split: sum.splits)
  with assms(1) show ?thesis
    unfolding shape_contract_def by blast
qed

lemma color_enhance_shape:
  assumes "shape_contract cv" "color_enhance cv denoised p = Inr enhanced"
  shows "shape enhanced = shape denoised \<or> three_channels enhanced"
proof (cases "saturation p \<noteq> 1 \<or> contrast p \<noteq> 1")
  case False
  with assms(2) show ?thesis by (simp add: color_enhance_def)
next
  case True
  with assms(2) obtain e where st: "saturation_stage cv denoised p = Inr e"
    and en: "enhanced = (if contrast p \<noteq> 1 then adjust_contrast e (contrast p) else e)"
    by (auto simp: color_enhance_def split: sum.splits if_splits)
  from saturation_stage_three_channels [OF assms(1) st] have "three_channels e" .
  then show ?thesis
    by (simp add: en three_channels_adjust_contrast)
qed

lemma enhance_stages_shape:
  assumes "shape_contract cv" "enhance_stages cv img p = Inr enhanced"
  shows "shape enhanced = shape img \<or> three_channels enhanced"
proof -
  from assms(2) obtain sharpened denoised where
    um: "unsharp_mask cv img p = Inr sharpened"
    and rn: "reduce_noise cv sharpened p = Inr denoised"
    and ce: "color_enhance cv denoised p = Inr enhanced"
    by (auto simp: enhance_stages_def after_sharpen_def split: sum.splits)
  from unsharp_mask_shape [OF um] reduce_noise_shape [OF assms(1) rn]
  have "shape denoised = shape img" by simp
  with color_enhance_shape [OF assms(1) ce] show ?thesis by auto
qed

lemma three_channels_gray_to_bgr: "three_channels (gray_to_bgr g)"
  by (simp add: three_channels_def gray_to_bgr_def split: shape.splits)

text \<open>
  Claim C6. For an input raster that is grayscale (two-dimensional or with one channel)
  or has three channels, every raster the enhancement pipeline returns has exactly
  three channels: a result of steps 1 to 4 that is grayscale is replaced by its
  threefold replication. The library is assumed to keep its documented shapes.
\<close>

theorem pipeline_three_channels:
  assumes "shape_contract cv" and "gray_or_bgr img"
    and "fst (enhancement_pipeline cv img p) = Inr out"
  shows "three_channels out \<and>
         (\<exists>enhanced. enhance_stages cv img p = Inr enhanced \<and>
            out = (if is_grayscale enhanced then gray_to_bgr enhanced else enhanced))"
proof -
  from assms(3) obtain enhanced where st: "enhance_stages cv img p = Inr enhanced"
    and ec: "fst (ensure_color cv enhanced) = Inr out"
    by (auto simp: enhancement_pipeline_def split: sum.splits)
  have out: "out = (if is_grayscale enhanced then gray_to_bgr enhanced else enhanced)"
  proof (cases "is_grayscale enhanced")
    case True
    with ec have "cvtColor cv enhanced COLOR_GRAY2BGR = Inr out"
      by (simp add: ensure_color_def)
    with assms(1) True show ?thesis
      unfolding shape_contract_def by simp
  next
    case False
    with ec show ?thesis by (simp add: ensure_color_def)
  qed
  have "three_channels out"
  proof (cases "is_grayscale enhanced")
    case True
    then show ?thesis by (simp add: out three_channels_gray_to_bgr)
  next
    case False
    from enhance_stages_shape [OF assms(1) st] show ?thesis
    proof
      assume "three_channels enhanced"
      with False show ?thesis by (simp add: out)
    next
      assume "shape enhanced = shape img"
      with False assms(2) show ?thesis
        by (auto simp: out three_channels_def is_grayscale_def gray_or_bgr_def
            split: shape.splits)
    qed
  qed
  with st out show ?thesis by blast
qed

lemma sim_shape_contract: "shape_contract sim_cv2"
  by (auto simp: shape_contract_def sim_cv2_fields sim_denoise_def sim_cvtColor_def
      split: if_splits)

text \<open>A two-dimensional raster of two pixels, neutral parameters.\<close>

theorem pipeline_three_channels_witness:
  "shape_contract sim_cv2 \<and>
   gray_or_bgr \<lparr> shape = HW 1 2, samples = [7, 9] \<rparr> \<and>
   enhancement_pipeline sim_cv2 \<lparr> shape = HW 1 2, samples = [7, 9] \<rparr>
     \<lparr> sharpening_strength = 0, blur_sigma = 3, jpeg_quality = 95,
       noise_reduction = 0, saturation = 1, contrast = 1 \<rparr> =
     (Inr \<lparr> shape = HWC 1 2 3, samples = [7, 7, 7, 9, 9, 9] \<rparr>,
      [''Warning: Image appears to be grayscale, converting to color'']) \<and>
   three_channels \<lparr> shape = HWC 1 2 3, samples = [7, 7, 7, 9, 9, 9] \<rparr>"
proof -
  have g: "gray_or_bgr \<lparr> shape = HW 1 2, samples = [7, 9] \<rparr>"
    by (simp add: gray_or_bgr_def)
  have e: "enhancement_pipeline sim_cv2 \<lparr> shape = HW 1 2, samples = [7, 9] \<rparr>
     \<lparr> sharpening_strength = 0, blur_sigma = 3, jpeg_quality = 95,
       noise_reduction = 0, saturation = 1, contrast = 1 \<rparr> =
     (Inr \<lparr> shape = HWC 1 2 3, samples = [7, 7, 7, 9, 9, 9] \<rparr>,
      [''Warning: Image appears to be grayscale, converting to color''])"
    by (simp add: enhancement_pipeline_def enhance_stages_def after_sharpen_def
        unsharp_mask_def sim_blur_def addWeighted_def saturate_cast_uchar_def cvRound_def
        astype_float32_def reduce_noise_def color_enhance_def ensure_color_def
        is_grayscale_def sim_cv2_fields sim_cvtColor_def gray_to_bgr_def)
  show ?thesis
    using pipeline_three_channels [OF sim_shape_contract g, of
        "\<lparr> sharpening_strength = 0, blur_sigma = 3, jpeg_quality = 95,
           noise_reduction = 0, saturation = 1, contrast = 1 \<rparr>"
        "\<lparr> shape = HWC 1 2 3, samples = [7, 7, 7, 9, 9, 9] \<rparr>"]
      sim_shape_contract g e
    by simp
qed

subsection \<open>The orchestration\<close>

lemma sim_system_fields:
  "os_path_exists sim_system = sim_exists"
  "os_path_dirname sim_system = posix_dirname"
  "os_makedirs sim_system = sim_makedirs"
  "rawpy_postprocess sim_system = sim_postprocess"
  "cv2_imwrite sim_system = sim_imwrite"
  by (simp_all add: sim_system_def)

text \<open>
  Claim C8. When the input path does not exist, the call returns \<^verbatim>\<open>None\<close>, prints
  the missing-input message and leaves the world as it was: no output file is created
  (the output path exists afterwards exactly if it existed before).
\<close>

theorem missing_input_returns_none:
  assumes "\<not> os_path_exists sys w input_path"
  shows "returned (process_raw_image sys cv w input_path output_path p) = None \<and>
         world_after (process_raw_image sys cv w input_path output_path p) = w \<and>
         printed (process_raw_image sys cv w input_path output_path p) =
           [''Error: Input file '' @ [CHR 0x27] @ input_path @ [CHR 0x27] @
            '' does not exist.''] \<and>
         os_path_exists sys
           (world_after (process_raw_image sys cv w input_path output_path p)) output_path
           = os_path_exists sys w output_path"
  using assms by (simp add: process_raw_image_def try_block_def)

text \<open>An empty disk: nothing is returned and nothing appears.\<close>

theorem missing_input_returns_none_witness:
  "\<not> os_path_exists sim_system \<lparr> dirs = {}, files = {} \<rparr> ''in/a.dng'' \<and>
   returned (process_raw_image sim_system sim_cv2 \<lparr> dirs = {}, files = {} \<rparr>
     ''in/a.dng'' ''out/a.jpg'' (scale_parameters
        \<lparr> ui_sharpening_strength = 50, ui_blur_sigma = 3, ui_jpeg_quality = 95,
          ui_noise_reduction = 30, ui_saturation = 55, ui_contrast = 55 \<rparr>)) = None \<and>
   world_after (process_raw_image sim_system sim_cv2 \<lparr> dirs = {}, files = {} \<rparr>
     ''in/a.dng'' ''out/a.jpg'' (scale_parameters
        \<lparr> ui_sharpening_strength = 50, ui_blur_sigma = 3, ui_jpeg_quality = 95,
          ui_noise_reduction = 30, ui_saturation = 55, ui_contrast = 55 \<rparr>))
     = \<lparr> dirs = {}, files = {} \<rparr> \<and>
   \<not> os_path_exists sim_system \<lparr> dirs = {}, files = {} \<rparr> ''out/a.jpg''"
proof -
  have h: "\<not> os_path_exists sim_system \<lparr> dirs = {}, files = {} \<rparr> ''in/a.dng''"
    by (simp add: sim_system_fields sim_exists_def)
  have o: "\<not> os_path_exists sim_system \<lparr> dirs = {}, files = {} \<rparr> ''out/a.jpg''"
    by (simp add: sim_system_fields sim_exists_def)
  from missing_input_returns_none [OF h] h o show ?thesis
    by simp
qed

text \<open>
  Claim C9 fails on the code. When the decoder, the conversion and the pipeline succeed
  and \<^verbatim>\<open>cv2.imwrite\<close> reports failure by returning \<^verbatim>\<open>False\<close> (it raises nothing),
  the call prints that the image was saved and returns the output path: the encode
  failure is not turned into \<^verbatim>\<open>None\<close>.
\<close>

theorem imwrite_failure_returns_path:
  assumes "os_path_exists sys w input_path"
    and "os_path_dirname sys output_path = [] \<or>
         os_path_exists sys w (os_path_dirname sys output_path)"
    and "rawpy_postprocess sys w input_path = Inr rgb_image"
    and "cvtColor cv rgb_image COLOR_RGB2BGR = Inr image_bgr"
    and "enhancement_pipeline cv image_bgr p = (Inr enhanced, warned)"
    and "cv2_imwrite sys w output_path enhanced (jpeg_quality p) = (Inr False, w')"
  shows "returned (process_raw_image sys cv w input_path output_path p) = Some output_path \<and>
         world_after (process_raw_image sys cv w input_path output_path p) = w' \<and>
         printed (process_raw_image sys cv w input_path output_path p) =
           [''Processing RAW image: '' @ input_path] @ warned @
           [''Processed image saved to: '' @ output_path]"
  using assms by (auto simp: process_raw_image_def try_block_def)


lemma posix_dirname_out: "posix_dirname ''out/a.jpg'' = ''out''"
  by (simp add: posix_dirname_def)

text \<open>
  The output path is an existing directory: the writer returns \<^verbatim>\<open>False\<close>, the call
  returns the path, and no such file exists afterwards.
\<close>

theorem imwrite_failure_returns_path_witness:
  "os_path_exists sim_system
     \<lparr> dirs = {''in'', ''out'', ''out/a.jpg''}, files = {''in/a.dng''} \<rparr> ''in/a.dng'' \<and>
   os_path_exists sim_system
     \<lparr> dirs = {''in'', ''out'', ''out/a.jpg''}, files = {''in/a.dng''} \<rparr>
     (os_path_dirname sim_system ''out/a.jpg'') \<and>
   cv2_imwrite sim_system
     \<lparr> dirs = {''in'', ''out'', ''out/a.jpg''}, files = {''in/a.dng''} \<rparr> ''out/a.jpg''
     \<lparr> shape = HWC 1 2 3, samples = [0, 100, 200, 30, 20, 10] \<rparr> 95 =
     (Inr False, \<lparr> dirs = {''in'', ''out'', ''out/a.jpg''}, files = {''in/a.dng''} \<rparr>) \<and>
   returned (process_raw_image sim_system sim_cv2
     \<lparr> dirs = {''in'', ''out'', ''out/a.jpg''}, files = {''in/a.dng''} \<rparr>
     ''in/a.dng'' ''out/a.jpg''
     \<lparr> sharpening_strength = 0, blur_sigma = 3, jpeg_quality = 95,
       noise_reduction = 0, saturation = 1, contrast = 1 \<rparr>) = Some ''out/a.jpg'' \<and>
   ''out/a.jpg'' \<notin> files (world_after (process_raw_image sim_system sim_cv2
     \<lparr> dirs = {''in'', ''out'', ''out/a.jpg''}, files = {''in/a.dng''} \<rparr>
     ''in/a.dng'' ''out/a.jpg''
     \<lparr> sharpening_strength = 0, blur_sigma = 3, jpeg_quality = 95,
       noise_reduction = 0, saturation = 1, contrast = 1 \<rparr>))"
proof -
  let ?w = "\<lparr> dirs = {''in'', ''out'', ''out/a.jpg''}, files = {''in/a.dng''} \<rparr>"
  let ?p = "\<lparr> sharpening_strength = 0, blur_sigma = 3, jpeg_quality = 95,
       noise_reduction = 0, saturation = 1, contrast = 1 \<rparr>"
  let ?bgr = "\<lparr> shape = HWC 1 2 3, samples = [0, 100, 200, 30, 20, 10] \<rparr>"
  have h1: "os_path_exists sim_system ?w ''in/a.dng''"
    by (simp add: sim_system_fields sim_exists_def)
  have h2: "os_path_dirname sim_system ''out/a.jpg'' = [] \<or>
      os_path_exists sim_system ?w (os_path_dirname sim_system ''out/a.jpg'')"
    by (simp add: sim_system_fields sim_exists_def posix_dirname_out)
  have h3: "rawpy_postprocess sim_system ?w ''in/a.dng'' = Inr sim_rgb"
    by (simp add: sim_system_fields sim_postprocess_def)
  have h4: "cvtColor sim_cv2 sim_rgb COLOR_RGB2BGR = Inr ?bgr"
    by (simp add: sim_cv2_fields sim_cvtColor_def sim_rgb_def three_channels_def)
  have h5: "enhancement_pipeline sim_cv2 ?bgr ?p = (Inr ?bgr, [])"
    by (simp add: enhancement_pipeline_def enhance_stages_def after_sharpen_def
        unsharp_mask_def sim_blur_def addWeighted_def saturate_cast_uchar_def cvRound_def
        astype_float32_def reduce_noise_def color_enhance_def ensure_color_def
        is_grayscale_def sim_cv2_fields)
  have h6: "cv2_imwrite sim_system ?w ''out/a.jpg'' ?bgr (jpeg_quality ?p) = (Inr False, ?w)"
    by (simp add: sim_system_fields sim_imwrite_def)
  from imwrite_failure_returns_path [OF h1 h2 h3 h4 h5 h6] h1 h2 h6 show ?thesis
    by (simp add: sim_system_fields posix_dirname_out)
qed

text \<open>Whatever the collaborators do, the call returns the output path or nothing.\<close>

lemma process_raw_image_returns:
  "returned (process_raw_image sys cv w input_path output_path p) = None \<or>
   returned (process_raw_image sys cv w input_path output_path p) = Some output_path"
  by (simp add: process_raw_image_def try_block_def Let_def
      split: prod.splits sum.splits option.splits)

text \<open>An exception raised inside the \<^verbatim>\<open>try\<close> block ends as \<^verbatim>\<open>None\<close> and a printed line.\<close>

lemma raised_exception_is_caught:
  assumes "try_block sys cv w input_path output_path p = (Inl e, w', out)"
  shows "process_raw_image sys cv w input_path output_path p =
           \<lparr> returned = None, world_after = w',
             printed = out @ [''Error processing image: '' @ e] \<rparr>"
  using assms by (simp add: process_raw_image_def)

text \<open>
  Claim C10. When the input exists, the directory part of the output path is not empty
  and does not exist, and \<^verbatim>\<open>os.makedirs\<close> succeeds, the decoder is called in the
  world that already has the directory, and the directory exists after the call
  whatever happens next: a failure of the decoder or of the pipeline returns
  \<^verbatim>\<open>None\<close> in that world, and an exception of the writer returns \<^verbatim>\<open>None\<close> in the
  world the writer left (the writer is assumed not to remove the directory).
\<close>

theorem output_directory_outlives_failure:
  assumes "os_path_exists sys w input_path"
    and "os_path_dirname sys output_path = d" and "d \<noteq> []"
    and "\<not> os_path_exists sys w d"
    and "os_makedirs sys w d = (None, w1)" and "os_path_exists sys w1 d"
    and "\<forall>img q. os_path_exists sys (snd (cv2_imwrite sys w1 output_path img q)) d"
  shows "os_path_exists sys
           (world_after (process_raw_image sys cv w input_path output_path p)) d \<and>
         (\<forall>e. rawpy_postprocess sys w1 input_path = Inl e \<longrightarrow>
            process_raw_image sys cv w input_path output_path p =
              \<lparr> returned = None, world_after = w1,
                printed = [''Processing RAW image: '' @ input_path,
                           ''Error processing image: '' @ e] \<rparr>) \<and>
         (\<forall>rgb_image image_bgr e warned.
            rawpy_postprocess sys w1 input_path = Inr rgb_image \<longrightarrow>
            cvtColor cv rgb_image COLOR_RGB2BGR = Inr image_bgr \<longrightarrow>
            enhancement_pipeline cv image_bgr p = (Inl e, warned) \<longrightarrow>
            returned (process_raw_image sys cv w input_path output_path p) = None \<and>
            world_after (process_raw_image sys cv w input_path output_path p) = w1) \<and>
         (\<forall>rgb_image image_bgr enhanced warned e w2.
            rawpy_postprocess sys w1 input_path = Inr rgb_image \<longrightarrow>
            cvtColor cv rgb_image COLOR_RGB2BGR = Inr image_bgr \<longrightarrow>
            enhancement_pipeline cv image_bgr p = (Inr enhanced, warned) \<longrightarrow>
            cv2_imwrite sys w1 output_path enhanced (jpeg_quality p) = (Inl e, w2) \<longrightarrow>
            returned (process_raw_image sys cv w input_path output_path p) = None \<and>
            world_after (process_raw_image sys cv w input_path output_path p) = w2)"
proof -
  have frame: "os_path_exists sys w2 d"
    if "cv2_imwrite sys w1 output_path img q = (r, w2)" for img q r w2
    using assms(7) that by (metis snd_conv)
  have tb: "try_block sys cv w input_path output_path p =
     (let out = [''Processing RAW image: '' @ input_path]
      in case rawpy_postprocess sys w1 input_path of
           Inl e \<Rightarrow> (Inl e, w1, out)
         | Inr rgb_image \<Rightarrow>
             (case cvtColor cv rgb_image COLOR_RGB2BGR of
                Inl e \<Rightarrow> (Inl e, w1, out)
              | Inr image_bgr \<Rightarrow>
                  (case enhancement_pipeline cv image_bgr p of
                     (Inl e, warned) \<Rightarrow> (Inl e, w1, out @ warned)
                   | (Inr enhanced, warned) \<Rightarrow>
                       (case cv2_imwrite sys w1 output_path enhanced (jpeg_quality p) of
                          (Inl e, w2) \<Rightarrow> (Inl e, w2, out @ warned)
                        | (Inr status, w2) \<Rightarrow>
                            (Inr (Some output_path), w2,
                             out @ warned @
                             [''Processed image saved to: '' @ output_path])))))"
    using assms(1-5) by (simp add: try_block_def)
  have "os_path_exists sys
           (world_after (process_raw_image sys cv w input_path output_path p)) d"
    using assms(6) frame
    by (auto simp: process_raw_image_def tb Let_def split: sum.splits prod.splits)
  moreover have "\<forall>e. rawpy_postprocess sys w1 input_path = Inl e \<longrightarrow>
            process_raw_image sys cv w input_path output_path p =
              \<lparr> returned = None, world_after = w1,
                printed = [''Processing RAW image: '' @ input_path,
                           ''Error processing image: '' @ e] \<rparr>"
    by (simp add: process_raw_image_def tb)
  moreover have "\<forall>rgb_image image_bgr e warned.
            rawpy_postprocess sys w1 input_path = Inr rgb_image \<longrightarrow>
            cvtColor cv rgb_image COLOR_RGB2BGR = Inr image_bgr \<longrightarrow>
            enhancement_pipeline cv image_bgr p = (Inl e, warned) \<longrightarrow>
            returned (process_raw_image sys cv w input_path output_path p) = None \<and>
            world_after (process_raw_image sys cv w input_path output_path p) = w1"
    by (simp add: process_raw_image_def tb)
  moreover have "\<forall>rgb_image image_bgr enhanced warned e w2.
            rawpy_postprocess sys w1 input_path = Inr rgb_image \<longrightarrow>
            cvtColor cv rgb_image COLOR_RGB2BGR = Inr image_bgr \<longrightarrow>
            enhancement_pipeline cv image_bgr p = (Inr enhanced, warned) \<longrightarrow>
            cv2_imwrite sys w1 output_path enhanced (jpeg_quality p) = (Inl e, w2) \<longrightarrow>
            returned (process_raw_image sys cv w input_path output_path p) = None \<and>
            world_after (process_raw_image sys cv w input_path output_path p) = w2"
    by (simp add: process_raw_image_def tb)
  ultimately show ?thesis by blast
qed

text \<open>An input that is not a RAW file: the call fails, and the directory is there.\<close>

theorem output_directory_outlives_failure_witness:
  "os_path_exists sim_system \<lparr> dirs = {''in''}, files = {''in/a.txt''} \<rparr> ''in/a.txt'' \<and>
   os_path_dirname sim_system ''out/a.jpg'' = ''out'' \<and>
   \<not> os_path_exists sim_system \<lparr> dirs = {''in''}, files = {''in/a.txt''} \<rparr> ''out'' \<and>
   os_makedirs sim_system \<lparr> dirs = {''in''}, files = {''in/a.txt''} \<rparr> ''out'' =
     (None, \<lparr> dirs = {''out'', ''in''}, files = {''in/a.txt''} \<rparr>) \<and>
   rawpy_postprocess sim_system \<lparr> dirs = {''out'', ''in''}, files = {''in/a.txt''} \<rparr>
     ''in/a.txt'' = Inl ''Unsupported file format or not RAW file'' \<and>
   process_raw_image sim_system sim_cv2 \<lparr> dirs = {''in''}, files = {''in/a.txt''} \<rparr>
     ''in/a.txt'' ''out/a.jpg''
     \<lparr> sharpening_strength = 1.5, blur_sigma = 3, jpeg_quality = 95,
       noise_reduction = 0, saturation = 1, contrast = 1 \<rparr> =
     \<lparr> returned = None,
       world_after = \<lparr> dirs = {''out'', ''in''}, files = {''in/a.txt''} \<rparr>,
       printed = [''Processing RAW image: in/a.txt'',
         ''Error processing image: Unsupported file format or not RAW file''] \<rparr> \<and>
   os_path_exists sim_system \<lparr> dirs = {''out'', ''in''}, files = {''in/a.txt''} \<rparr> ''out''"
proof -
  let ?w = "\<lparr> dirs = {''in''}, files = {''in/a.txt''} \<rparr>"
  let ?w1 = "\<lparr> dirs = {''out'', ''in''}, files = {''in/a.txt''} \<rparr>"
  have h1: "os_path_exists sim_system ?w ''in/a.txt''"
    by (simp add: sim_system_fields sim_exists_def)
  have h2: "os_path_dirname sim_system ''out/a.jpg'' = ''out''"
    by (simp add: sim_system_fields posix_dirname_out)
  have h3: "''out'' \<noteq> []" by simp
  have h4: "\<not> os_path_exists sim_system ?w ''out''"
    by (simp add: sim_system_fields sim_exists_def)
  have h5: "os_makedirs sim_system ?w ''out'' = (None, ?w1)"
    by (simp add: sim_system_fields sim_makedirs_def sim_exists_def)
  have h6: "os_path_exists sim_system ?w1 ''out''"
    by (simp add: sim_system_fields sim_exists_def)
  have h7: "\<forall>img q. os_path_exists sim_system
              (snd (cv2_imwrite sim_system ?w1 ''out/a.jpg'' img q)) ''out''"
    by (simp add: sim_system_fields sim_imwrite_def sim_exists_def)
  have h8: "rawpy_postprocess sim_system ?w1 ''in/a.txt''
              = Inl ''Unsupported file format or not RAW file''"
    by (simp add: sim_system_fields sim_postprocess_def)
  from output_directory_outlives_failure [OF h1 h2 h3 h4 h5 h6 h7, of sim_cv2
      "\<lparr> sharpening_strength = 1.5, blur_sigma = 3, jpeg_quality = 95,
         noise_reduction = 0, saturation = 1, contrast = 1 \<rparr>"]
    h1 h2 h4 h5 h6 h8
  show ?thesis by simp
qed

end
